theory Spec2Isabelle
  imports Main "HOL-Library.Word"
begin

unbundle bit_operations_syntax

section \<open>Guest memory\<close>

text \<open>
  \<^verbatim>\<open>uint8_t* mem = xe_memory_addr(memory_, 0)\<close> is the host pointer to guest offset 0.
  Guest memory is modelled as the bytes behind that pointer, indexed by the offset from it.
  \<^verbatim>\<open>mem + var->address\<close> is host pointer arithmetic with a \<^verbatim>\<open>uint32_t\<close> offset, so the
  offset \<open>unat address\<close> and the three bytes after it never wrap around.
\<close>

type_synonym guest_memory = "nat \<Rightarrow> 8 word"

text \<open>
  Modelled from the spec: the macro \<^verbatim>\<open>XESWAP32BE\<close> is not defined in the sources at hand.
  The spec calls the write "byte-order-correct for the guest's endianness" (big-endian);
  on the little-endian host the emulator runs on, that is the 32-bit byte swap.
\<close>

definition XESWAP32BE :: "32 word \<Rightarrow> 32 word" where
  "XESWAP32BE v =
     (push_bit 24 (v AND 0xFF)) OR (push_bit 8 (v AND 0xFF00)) OR
     (drop_bit 8 v AND 0xFF00) OR (drop_bit 24 v AND 0xFF)"

text \<open>
  \<^verbatim>\<open>*slot = v\<close> with \<^verbatim>\<open>uint32_t* slot\<close>: the host stores the four bytes of \<open>v\<close>, least
  significant byte first.
\<close>

definition store_u32 :: "guest_memory \<Rightarrow> nat \<Rightarrow> 32 word \<Rightarrow> guest_memory" where
  "store_u32 mem a v =
     mem(a := ucast v, a + 1 := ucast (drop_bit 8 v),
         a + 2 := ucast (drop_bit 16 v), a + 3 := ucast (drop_bit 24 v))"

text \<open>What the big-endian guest reads as the 32-bit word at offset \<open>a\<close>.\<close>

definition load_u32_be :: "guest_memory \<Rightarrow> nat \<Rightarrow> 32 word" where
  "load_u32_be mem a =
     push_bit 24 (ucast (mem a)) OR push_bit 16 (ucast (mem (a + 1))) OR
     push_bit 8 (ucast (mem (a + 2))) OR ucast (mem (a + 3))"

section \<open>Symbol database and kernel exports\<close>

datatype ExportType = Function | Variable

record KernelExport =
  name :: string
  type :: ExportType
  is_implemented :: bool
  variable_ptr :: "32 word"

record VariableSymbol =
  address :: "32 word"
  kernel_export :: "KernelExport option"

text \<open>
  The symbol database classes are not in the sources at hand; the model keeps what
  \<^verbatim>\<open>ExecModule\<close> asks of them: the result codes of \<^verbatim>\<open>Analyze()\<close> and \<^verbatim>\<open>Write(file)\<close>, and the
  result code and the vector filled in by \<^verbatim>\<open>GetAllVariables(variables)\<close>.
\<close>

record SymbolDatabase =
  Analyze :: int
  Write :: int
  GetAllVariables :: "int \<times> VariableSymbol list"

section \<open>The generated module and the collaborators\<close>

record llvm_Function =
  fn_name :: string
  isDeclaration :: bool

record GlobalVariable =
  gv_name :: string
  isConstant :: bool
  alignment :: nat
  initializer :: nat

record Module =
  ModuleID :: string
  GlobalList :: "GlobalVariable list"
  FunctionList :: "llvm_Function list"
  TargetTriple :: string

definition getFunction :: "Module \<Rightarrow> string \<Rightarrow> llvm_Function option" where
  "getFunction m n = find (\<lambda>f. fn_name f = n) (FunctionList m)"

record PassManagerBuilder =
  OptLevel :: nat
  SizeLevel :: nat
  Inliner :: bool
  Vectorize :: bool
  LoopVectorize :: bool

datatype pass =
    DataLayout
  | VerifierPass
  | populateModulePassManager PassManagerBuilder
  | populateLTOPassManager PassManagerBuilder bool bool

text \<open>The calls \<^verbatim>\<open>ExecModule\<close> makes on its collaborators, in the order it makes them.\<close>

datatype event =
    E_getFile string
  | E_ParseBitcodeFile
  | E_Analyze
  | E_Write string
  | E_new_Module string
  | E_addGlobalMapping string
  | E_LinkModules
  | E_Generate
  | E_raw_fd_ostream string
  | E_WriteBitcodeToFile string
  | E_MaterializeAllPermanently
  | E_setTargetTriple string
  | E_run "pass list"
  | E_runStaticConstructorsDestructors bool
  | E_runFunction "llvm_Function option"
  | E_getPointerToFunction string

text \<open>
  The command-line flags and the behaviour of the LLVM and code-generator calls, none of
  which is defined in this file, are parameters of the model:
  \<^item> \<open>getFile path\<close> is the error code of \<^verbatim>\<open>MemoryBuffer::getFile\<close>, \<open>ParseBitcodeFile\<close> the
    parsed shared module or \<open>None\<close> for a null pointer;
  \<^item> \<open>LinkModules dest src\<close> is the destination module after linking and the error message
    it leaves (the source ignores the call's result);
  \<^item> \<open>Generate m\<close> is the result code of \<^verbatim>\<open>codegen_->Generate()\<close> and the module after it;
  \<^item> \<open>raw_fd_ostream file msg\<close> is the content of \<^verbatim>\<open>error_message\<close> after the stream on
    \<open>file\<close> has been constructed, \<open>msg\<close> being its content before;
  \<^item> \<open>MaterializeAllPermanently m\<close> is the call's result (true on error) and the module after;
  \<^item> \<open>run passes m\<close> is the module after \<^verbatim>\<open>pm.run\<close>;
  \<^item> \<open>runFunction f\<close> is the \<^verbatim>\<open>IntVal\<close> of the value returned by \<^verbatim>\<open>engine_->runFunction\<close>.
  What guest code does to guest memory while the engine runs it is outside this file: the
  model records the call and takes its return value from the environment.
\<close>

record environment =
  FLAGS_dump_module_map :: bool
  FLAGS_dump_module_bitcode :: bool
  FLAGS_optimize_ir_modules :: bool
  FLAGS_dump_path :: string
  xe_memory_addr :: nat
  getFile :: "string \<Rightarrow> int"
  ParseBitcodeFile :: "Module option"
  LinkModules :: "Module \<Rightarrow> Module \<Rightarrow> Module \<times> string"
  Generate :: "Module \<Rightarrow> int \<times> Module"
  raw_fd_ostream :: "string \<Rightarrow> string \<Rightarrow> string"
  MaterializeAllPermanently :: "Module \<Rightarrow> bool \<times> Module"
  getDefaultTargetTriple :: string
  run :: "pass list \<Rightarrow> Module \<Rightarrow> Module"
  runFunction :: "llvm_Function option \<Rightarrow> 32 word"

section \<open>ExecModule\<close>

record ExecModule =
  memory :: guest_memory
  exec_module_name :: string
  exec_module_path :: string
  sdb :: SymbolDatabase
  gen_module :: "Module option"
  trace :: "event list"
  cpu_log :: "string list"

text \<open>
  The members \<^verbatim>\<open>memory_\<close>, \<^verbatim>\<open>sdb_\<close>, \<^verbatim>\<open>gen_module_\<close>, ... are written without the trailing
  underscore (\<^verbatim>\<open>module_name_\<close> and \<^verbatim>\<open>module_path_\<close> as \<open>exec_module_name\<close> and
  \<open>exec_module_path\<close>). Dereferencing a null \<^verbatim>\<open>gen_module_\<close> does not return.
\<close>

datatype fault = NullPointerDereference

definition emit :: "event \<Rightarrow> ExecModule \<Rightarrow> ExecModule" where
  "emit e s = s\<lparr>trace := trace s @ [e]\<rparr>"

definition XELOGCPU :: "string \<Rightarrow> ExecModule \<Rightarrow> ExecModule" where
  "XELOGCPU msg s = s\<lparr>cpu_log := cpu_log s @ [msg]\<rparr>"

text \<open>\<^verbatim>\<open>xesnprintfa(file_name, XECOUNT(file_name), ...)\<close> into \<^verbatim>\<open>char file_name[2048]\<close>.\<close>

definition xesnprintfa :: "nat \<Rightarrow> string list \<Rightarrow> string" where
  "xesnprintfa count parts = take (count - 1) (concat parts)"

subsection \<open>InjectGlobals\<close>

text \<open>
  \<^verbatim>\<open>engine_->addGlobalMapping(Function::Create(ty, ExternalLinkage, name, gen_module.get()),
  handler)\<close>: a declaration is added to the module and bound to the native handler.
\<close>

definition declare_trampoline :: "string \<Rightarrow> Module \<times> ExecModule \<Rightarrow> Module \<times> ExecModule" where
  "declare_trampoline n ms =
     (case ms of (m, s) \<Rightarrow>
        (m\<lparr>FunctionList := FunctionList m @ [\<lparr>fn_name = n, isDeclaration = True\<rparr>]\<rparr>,
         emit (E_addGlobalMapping n) s))"

definition InjectGlobals :: "environment \<Rightarrow> ExecModule \<Rightarrow> (fault + int) \<times> ExecModule" where
  "InjectGlobals env s =
     (case gen_module s of
        None \<Rightarrow> (Inl NullPointerDereference, s)
      | Some m0 \<Rightarrow>
          let gv = \<lparr>gv_name = ''xe_memory_base'', isConstant = True, alignment = 64,
                    initializer = xe_memory_addr env\<rparr>;
              m1 = m0\<lparr>GlobalList := GlobalList m0 @ [gv]\<rparr>;
              (m2, s2) =
                 declare_trampoline ''XeTraceInstruction''
                   (declare_trampoline ''XeTraceUserCall''
                     (declare_trampoline ''XeTraceKernelCall''
                       (declare_trampoline ''XeInvalidInstruction''
                         (declare_trampoline ''XeIndirectBranch''
                           (declare_trampoline ''XeTrap'' (m1, s))))))
          in (Inr 0, s2\<lparr>gen_module := Some m2\<rparr>))"

subsection \<open>Init and Uninit\<close>

text \<open>The body of the loop over the variables in \<^verbatim>\<open>Init\<close>.\<close>

definition bind_variable :: "VariableSymbol \<Rightarrow> ExecModule \<Rightarrow> ExecModule" where
  "bind_variable var s =
     (case kernel_export var of
        None \<Rightarrow> s
      | Some ke \<Rightarrow>
          if type ke = Function then s
          else if is_implemented ke then
            s\<lparr>memory := store_u32 (memory s) (unat (address var))
                            (XESWAP32BE (variable_ptr ke))\<rparr>
          else
            XELOGCPU (''WARNING: imported a variable with no value: '' @ name ke)
              (s\<lparr>memory := store_u32 (memory s) (unat (address var))
                               (XESWAP32BE 0xDEADBEEF)\<rparr>))"

fun bind_variables :: "VariableSymbol list \<Rightarrow> ExecModule \<Rightarrow> ExecModule" where
  "bind_variables [] s = s"
| "bind_variables (var # variables) s = bind_variables variables (bind_variable var s)"

definition Init :: "environment \<Rightarrow> ExecModule \<Rightarrow> (fault + int) \<times> ExecModule" where
  "Init env s =
     (case GetAllVariables (sdb s) of (rc, variables) \<Rightarrow>
        if rc \<noteq> 0 then (Inr 1, s)
        else
          let s1 = bind_variables variables s;
              s2 = emit (E_runStaticConstructorsDestructors False) s1
          in case gen_module s2 of
               None \<Rightarrow> (Inl NullPointerDereference, s2)
             | Some m \<Rightarrow>
                 let xe_module_init = getFunction m ''xe_module_init'';
                     s3 = emit (E_runFunction xe_module_init) s2
                 in (Inr (sint (runFunction env xe_module_init)), s3))"


subsection \<open>Prepare\<close>

text \<open>The pass manager as \<^verbatim>\<open>Prepare\<close> fills it before \<^verbatim>\<open>pm.run\<close>.\<close>

definition pmb :: PassManagerBuilder where
  "pmb = \<lparr>OptLevel = 3, SizeLevel = 0, Inliner = True, Vectorize = True,
          LoopVectorize = True\<rparr>"

definition pm :: "environment \<Rightarrow> pass list" where
  "pm env =
     [DataLayout] @
     (if FLAGS_optimize_ir_modules env
      then [VerifierPass, populateModulePassManager pmb, populateLTOPassManager pmb False True]
      else []) @
     [VerifierPass]"

text \<open>The loop "Force JIT of all functions".\<close>

fun force_jit :: "llvm_Function list \<Rightarrow> ExecModule \<Rightarrow> ExecModule" where
  "force_jit [] s = s"
| "force_jit (fn # fns) s =
     force_jit fns (if \<not> isDeclaration fn then emit (E_getPointerToFunction (fn_name fn)) s else s)"

text \<open>
  The block under \<^verbatim>\<open>if (!gen_module.get())\<close>. The result is \<open>Inr 0\<close> when control leaves
  the block at its end and \<open>Inr 1\<close> (the value of \<^verbatim>\<open>result_code\<close>) when one of the
  \<^verbatim>\<open>XEEXPECT\<close> checks jumps to \<^verbatim>\<open>XECLEANUP\<close>; the string is \<^verbatim>\<open>error_message\<close>.
\<close>

definition thunk_path :: string where
  "thunk_path = ''src/cpu/xethunk/xethunk.bc''"

definition generate_module ::
  "environment \<Rightarrow> ExecModule \<Rightarrow> (fault + int) \<times> string \<times> ExecModule" where
  "generate_module env s =
     (let s = emit (E_getFile thunk_path) s in
      if getFile env thunk_path \<noteq> 0 then (Inr 1, [], s)
      else
        let s = emit E_ParseBitcodeFile s in
        case ParseBitcodeFile env of
          None \<Rightarrow> (Inr 1, [], s)
        | Some shared_module \<Rightarrow>
            let s = emit E_Analyze s in
            if Analyze (sdb s) \<noteq> 0 then (Inr 1, [], s)
            else
              let s = (if FLAGS_dump_module_map env
                       then emit (E_Write (xesnprintfa 2048
                              [FLAGS_dump_path env, exec_module_name s, ''.map''])) s
                       else s);
                  s = emit (E_new_Module (exec_module_name s))
                        (s\<lparr>gen_module :=
                             Some \<lparr>ModuleID = exec_module_name s, GlobalList = [],
                                   FunctionList = [], TargetTriple = []\<rparr>\<rparr>)
              in case InjectGlobals env s of
                   (Inl f, s) \<Rightarrow> (Inl f, [], s)
                 | (Inr rc, s) \<Rightarrow>
                     if rc \<noteq> 0 then (Inr 1, [], s)
                     else
                       (case gen_module s of
                          None \<Rightarrow> (Inl NullPointerDereference, [], s)
                        | Some m \<Rightarrow>
                            let (m, error_message) = LinkModules env m shared_module;
                                s = emit E_LinkModules (s\<lparr>gen_module := Some m\<rparr>);
                                (rc, m) = Generate env m;
                                s = emit E_Generate (s\<lparr>gen_module := Some m\<rparr>)
                            in if rc \<noteq> 0 then (Inr 1, error_message, s)
                               else if FLAGS_dump_module_bitcode env then
                                 let file_name = xesnprintfa 2048
                                       [FLAGS_dump_path env, exec_module_name s, ''-preopt.bc''];
                                     error_message = raw_fd_ostream env file_name error_message;
                                     s = emit (E_raw_fd_ostream file_name) s
                                 in if error_message \<noteq> [] then (Inr 1, error_message, s)
                                    else (Inr 0, error_message,
                                          emit (E_WriteBitcodeToFile file_name) s)
                               else (Inr 0, error_message, s)))"

text \<open>
  \<^verbatim>\<open>XEEXPECTZERO(Init())\<close> followed by the loop that forces the JIT of every function
  that is not a declaration.
\<close>

definition init_and_jit :: "environment \<Rightarrow> ExecModule \<Rightarrow> (fault + int) \<times> ExecModule" where
  "init_and_jit env s =
     (case Init env s of
        (Inl f, s) \<Rightarrow> (Inl f, s)
      | (Inr rc, s) \<Rightarrow>
          if rc \<noteq> 0 then (Inr 1, s)
          else
            (case gen_module s of
               None \<Rightarrow> (Inl NullPointerDereference, s)
             | Some m \<Rightarrow> (Inr 0, force_jit (FunctionList m) s)))"

text \<open>The rest of \<^verbatim>\<open>Prepare\<close>, from "Link optimizations" on.\<close>

definition finish_module ::
  "environment \<Rightarrow> string \<Rightarrow> ExecModule \<Rightarrow> (fault + int) \<times> ExecModule" where
  "finish_module env error_message s =
     (case gen_module s of
        None \<Rightarrow> (Inl NullPointerDereference, s)
      | Some m \<Rightarrow>
          let (failed, m) = MaterializeAllPermanently env m;
              s = emit E_MaterializeAllPermanently (s\<lparr>gen_module := Some m\<rparr>)
          in if failed then (Inr 1, s)
             else
               let m = m\<lparr>TargetTriple := getDefaultTargetTriple env\<rparr>;
                   s = emit (E_setTargetTriple (getDefaultTargetTriple env))
                         (s\<lparr>gen_module := Some m\<rparr>);
                   m = run env (pm env) m;
                   s = emit (E_run (pm env)) (s\<lparr>gen_module := Some m\<rparr>)
               in if FLAGS_optimize_ir_modules env \<and> FLAGS_dump_module_bitcode env then
                    let file_name = xesnprintfa 2048
                          [FLAGS_dump_path env, exec_module_name s, ''.bc''];
                        error_message = raw_fd_ostream env file_name error_message;
                        s = emit (E_raw_fd_ostream file_name) s
                    in if error_message \<noteq> [] then (Inr 1, s)
                       else init_and_jit env (emit (E_WriteBitcodeToFile file_name) s)
                  else init_and_jit env s)"

definition Prepare :: "environment \<Rightarrow> ExecModule \<Rightarrow> (fault + int) \<times> ExecModule" where
  "Prepare env s =
     (if gen_module s = None then
        (case generate_module env s of
           (Inl f, error_message, s) \<Rightarrow> (Inl f, s)
         | (Inr rc, error_message, s) \<Rightarrow>
             if rc \<noteq> 0 then (Inr rc, s) else finish_module env error_message s)
      else finish_module env [] s)"

section \<open>Notions used in the statements\<close>

text \<open>
  The variable symbols for which the loop in \<^verbatim>\<open>Init\<close> writes a slot: those bound to a
  kernel export that is not of kind \<^verbatim>\<open>KernelExport::Function\<close>.
\<close>

definition binds_slot :: "VariableSymbol \<Rightarrow> bool" where
  "binds_slot var = (case kernel_export var of None \<Rightarrow> False | Some ke \<Rightarrow> type ke \<noteq> Function)"

text \<open>The host value the loop stores into the slot of such a symbol.\<close>

definition slot_value :: "VariableSymbol \<Rightarrow> 32 word" where
  "slot_value var =
     (case kernel_export var of
        None \<Rightarrow> 0
      | Some ke \<Rightarrow> XESWAP32BE (if is_implemented ke then variable_ptr ke else 0xDEADBEEF))"

text \<open>
  The 4-byte slots of two variable symbols share no guest address. The data model lets
  every guest address belong to at most one variable symbol.
\<close>

definition slots_apart :: "VariableSymbol \<Rightarrow> VariableSymbol \<Rightarrow> bool" where
  "slots_apart v w =
     (unat (address v) + 4 \<le> unat (address w) \<or> unat (address w) + 4 \<le> unat (address v))"

text \<open>The messages the loop logs for one symbol.\<close>

definition warning_of :: "VariableSymbol \<Rightarrow> string list" where
  "warning_of var =
     (case kernel_export var of
        None \<Rightarrow> []
      | Some ke \<Rightarrow>
          if type ke \<noteq> Function \<and> \<not> is_implemented ke
          then [''WARNING: imported a variable with no value: '' @ name ke] else [])"

text \<open>
  Independent of the store: byte \<open>i\<close> of a 32-bit value in the guest's big-endian order
  (byte 0 the most significant), the value the guest is to read in the slot of a symbol,
  whether a guest address lies in the slot of a symbol the loop writes, and the byte the
  guest finds at an address after the loop: that of the last symbol in the list whose slot
  holds the address, or the byte that was there.
\<close>

definition be_byte :: "32 word \<Rightarrow> nat \<Rightarrow> 8 word" where
  "be_byte v i = ucast (drop_bit (8 * (3 - i)) v)"

definition guest_value :: "VariableSymbol \<Rightarrow> 32 word" where
  "guest_value var =
     (case kernel_export var of
        None \<Rightarrow> 0
      | Some ke \<Rightarrow> if is_implemented ke then variable_ptr ke else 0xDEADBEEF)"

definition in_slot :: "nat \<Rightarrow> VariableSymbol \<Rightarrow> bool" where
  "in_slot b var = (binds_slot var \<and> unat (address var) \<le> b \<and> b < unat (address var) + 4)"

definition bound_byte :: "VariableSymbol list \<Rightarrow> guest_memory \<Rightarrow> nat \<Rightarrow> 8 word" where
  "bound_byte variables mem b =
     (case find (in_slot b) (rev variables) of
        None \<Rightarrow> mem b
      | Some var \<Rightarrow> be_byte (guest_value var) (b - unat (address var)))"

section \<open>A concrete module\<close>

text \<open>
  One symbol of each kind: bound to an implemented variable export, to an unimplemented
  one, to a function export, and unbound; a shared module with the two entry points; and
  collaborators that all succeed.
\<close>

definition v_implemented :: VariableSymbol where
  "v_implemented = \<lparr>address = 0x100, kernel_export =
     Some \<lparr>name = ''KeDebugMonitorData'', type = Variable, is_implemented = True,
           variable_ptr = 0x12345678\<rparr>\<rparr>"

definition v_unimplemented :: VariableSymbol where
  "v_unimplemented = \<lparr>address = 0x104, kernel_export =
     Some \<lparr>name = ''XboxHardwareInfo'', type = Variable, is_implemented = False,
           variable_ptr = 0\<rparr>\<rparr>"

definition v_function :: VariableSymbol where
  "v_function = \<lparr>address = 0x108, kernel_export =
     Some \<lparr>name = ''NtClose'', type = Function, is_implemented = True,
           variable_ptr = 0\<rparr>\<rparr>"

definition v_unbound :: VariableSymbol where
  "v_unbound = \<lparr>address = 0x10C, kernel_export = None\<rparr>"

definition example_sdb :: SymbolDatabase where
  "example_sdb = \<lparr>Analyze = 0, Write = 0,
     GetAllVariables = (0, [v_implemented, v_unimplemented, v_function, v_unbound])\<rparr>"

definition example_thunk :: Module where
  "example_thunk = \<lparr>ModuleID = ''xethunk'', GlobalList = [],
     FunctionList = [\<lparr>fn_name = ''xe_module_init'', isDeclaration = False\<rparr>,
                     \<lparr>fn_name = ''xe_module_uninit'', isDeclaration = False\<rparr>],
     TargetTriple = ''thunk''\<rparr>"

definition example_env :: environment where
  "example_env = \<lparr>
     FLAGS_dump_module_map = False, FLAGS_dump_module_bitcode = False,
     FLAGS_optimize_ir_modules = False, FLAGS_dump_path = ''build/'',
     xe_memory_addr = 4294967296,
     getFile = (\<lambda>path. 0),
     ParseBitcodeFile = Some example_thunk,
     LinkModules = (\<lambda>dest src. (dest\<lparr>FunctionList := FunctionList dest @ FunctionList src\<rparr>, [])),
     Generate = (\<lambda>m. (0, m\<lparr>FunctionList := FunctionList m @
                    [\<lparr>fn_name = ''sub_00001000'', isDeclaration = False\<rparr>]\<rparr>)),
     raw_fd_ostream = (\<lambda>file msg. []),
     MaterializeAllPermanently = (\<lambda>m. (False, m)),
     getDefaultTargetTriple = ''host'',
     run = (\<lambda>passes m. m),
     runFunction = (\<lambda>f. 0)\<rparr>"

definition example_module :: ExecModule where
  "example_module = \<lparr>memory = (\<lambda>a. 0), exec_module_name = ''game'',
     exec_module_path = ''game.xex'', sdb = example_sdb, gen_module = None,
     trace = [], cpu_log = []\<rparr>"

definition example_generated :: Module where
  "example_generated = \<lparr>ModuleID = ''game'', GlobalList = [],
     FunctionList = [\<lparr>fn_name = ''XeTrap'', isDeclaration = True\<rparr>,
                     \<lparr>fn_name = ''xe_module_init'', isDeclaration = False\<rparr>,
                     \<lparr>fn_name = ''xe_module_uninit'', isDeclaration = False\<rparr>,
                     \<lparr>fn_name = ''sub_00001000'', isDeclaration = False\<rparr>],
     TargetTriple = ''host''\<rparr>"

definition example_prepared :: ExecModule where
  "example_prepared = example_module\<lparr>gen_module := Some example_generated\<rparr>"

section \<open>Notions used in the statements about Prepare\<close>

text \<open>The calls made between two states of the module: what the later trace adds.\<close>

definition calls :: "ExecModule \<Rightarrow> ExecModule \<Rightarrow> event list" where
  "calls s s' = drop (length (trace s)) (trace s')"

text \<open>The two engine calls of \<^verbatim>\<open>Init\<close> on a module, and the calls of the JIT loop on it.\<close>

definition init_calls :: "Module \<Rightarrow> event list" where
  "init_calls m =
     [E_runStaticConstructorsDestructors False, E_runFunction (getFunction m ''xe_module_init'')]"

definition jit_calls :: "Module \<Rightarrow> event list" where
  "jit_calls m =
     map (\<lambda>fn. E_getPointerToFunction (fn_name fn))
       (filter (\<lambda>fn. \<not> isDeclaration fn) (FunctionList m))"

text \<open>
  Where a call belongs: 1 for the engine calls that \<^verbatim>\<open>Init\<close> and \<^verbatim>\<open>Uninit\<close> make, 2 for the
  forced compilation of a function, 0 for everything else.
\<close>

fun phase :: "event \<Rightarrow> nat" where
  "phase (E_runStaticConstructorsDestructors b) = 1"
| "phase (E_runFunction f) = 1"
| "phase (E_getPointerToFunction n) = 2"
| "phase e = 0"

text \<open>
  The calls of the stages under \<^verbatim>\<open>if (!gen_module_.get())\<close>: loading the shared module,
  symbol analysis and its map, module creation, global injection, linking, code generation.
\<close>

fun is_generation_stage :: "event \<Rightarrow> bool" where
  "is_generation_stage (E_getFile p) = True"
| "is_generation_stage E_ParseBitcodeFile = True"
| "is_generation_stage E_Analyze = True"
| "is_generation_stage (E_Write f) = True"
| "is_generation_stage (E_new_Module n) = True"
| "is_generation_stage (E_addGlobalMapping n) = True"
| "is_generation_stage E_LinkModules = True"
| "is_generation_stage E_Generate = True"
| "is_generation_stage e = False"

text \<open>
  The module after \<^verbatim>\<open>MaterializeAllPermanently\<close>, \<^verbatim>\<open>setTargetTriple\<close> and \<^verbatim>\<open>pm.run\<close>, and the
  calls these make.
\<close>

definition optimized :: "environment \<Rightarrow> Module \<Rightarrow> Module" where
  "optimized env m =
     run env (pm env) ((snd (MaterializeAllPermanently env m))
                         \<lparr>TargetTriple := getDefaultTargetTriple env\<rparr>)"

definition optimize_calls :: "environment \<Rightarrow> event list" where
  "optimize_calls env =
     [E_MaterializeAllPermanently, E_setTargetTriple (getDefaultTargetTriple env),
      E_run (pm env)]"

text \<open>The names \<^verbatim>\<open>InjectGlobals\<close> declares, in its order, and the module it leaves.\<close>

definition trampolines :: "string list" where
  "trampolines = [''XeTrap'', ''XeIndirectBranch'', ''XeInvalidInstruction'',
                  ''XeTraceKernelCall'', ''XeTraceUserCall'', ''XeTraceInstruction'']"

definition injected :: "environment \<Rightarrow> Module \<Rightarrow> Module" where
  "injected env m =
     m\<lparr>GlobalList := GlobalList m @
           [\<lparr>gv_name = ''xe_memory_base'', isConstant = True, alignment = 64,
             initializer = xe_memory_addr env\<rparr>],
       FunctionList := FunctionList m @
           map (\<lambda>n. \<lparr>fn_name = n, isDeclaration = True\<rparr>) trampolines\<rparr>"

text \<open>The three file names \<^verbatim>\<open>Prepare\<close> formats into \<^verbatim>\<open>file_name\<close>.\<close>

definition map_file :: "environment \<Rightarrow> ExecModule \<Rightarrow> string" where
  "map_file env s = xesnprintfa 2048 [FLAGS_dump_path env, exec_module_name s, ''.map'']"

definition preopt_file :: "environment \<Rightarrow> ExecModule \<Rightarrow> string" where
  "preopt_file env s = xesnprintfa 2048 [FLAGS_dump_path env, exec_module_name s, ''-preopt.bc'']"

definition postopt_file :: "environment \<Rightarrow> ExecModule \<Rightarrow> string" where
  "postopt_file env s = xesnprintfa 2048 [FLAGS_dump_path env, exec_module_name s, ''.bc'']"

text \<open>
  Variants of the concrete module: a guest entry point that returns 1, the bitcode dump
  switched on, with a dump file that opens and with one that does not, a database whose
  analysis fails, and a generated module without the two entry points.
\<close>

definition env_init_fails :: environment where
  "env_init_fails = example_env\<lparr>runFunction := (\<lambda>f. 1)\<rparr>"

definition env_dump :: environment where
  "env_dump = example_env\<lparr>FLAGS_dump_module_bitcode := True\<rparr>"

definition env_dump_fails :: environment where
  "env_dump_fails = env_dump\<lparr>raw_fd_ostream := (\<lambda>file msg. ''cannot open'')\<rparr>"

definition example_failed_analysis :: ExecModule where
  "example_failed_analysis = example_module\<lparr>sdb := example_sdb\<lparr>Analyze := 1\<rparr>\<rparr>"

definition example_no_entry_points :: ExecModule where
  "example_no_entry_points = example_module\<lparr>gen_module :=
     Some \<lparr>ModuleID = ''game'', GlobalList = [], FunctionList = [], TargetTriple = []\<rparr>\<rparr>"

text \<open>
  Two more variants: the symbol map switched on, and optimization and the bitcode dump
  switched on with only the post-optimization file failing to open.
\<close>

definition env_map :: environment where
  "env_map = example_env\<lparr>FLAGS_dump_module_map := True\<rparr>"

definition env_postopt_fails :: environment where
  "env_postopt_fails = example_env\<lparr>FLAGS_optimize_ir_modules := True,
     FLAGS_dump_module_bitcode := True,
     raw_fd_ostream := (\<lambda>file msg. if file = ''build/game.bc'' then ''cannot open'' else [])\<rparr>"

section \<open>The variable-binding loop of Init\<close>

lemma mask_255: "(0xFF :: 32 word) = mask 8"
  by (simp add: mask_eq_exp_minus_1)

lemma mask_65280: "(0xFF00 :: 32 word) = push_bit 8 (mask 8)"
  by (simp add: mask_eq_exp_minus_1 push_bit_eq_mult)

lemma XESWAP32BE_bit:
  "bit (XESWAP32BE v) n =
     (if n < 8 then bit v (n + 24) else if n < 16 then bit v (n + 8)
      else if n < 24 then bit v (n - 8) else n < 32 \<and> bit v (n - 24))"
  unfolding XESWAP32BE_def mask_255 mask_65280
  by (auto simp add: bit_simps add.commute dest: bit_imp_le_length)

lemma load_store_swap: "load_u32_be (store_u32 mem a (XESWAP32BE v)) a = v"
  unfolding load_u32_be_def store_u32_def
  apply simp
  apply (rule bit_word_eqI)
  apply (simp add: bit_simps XESWAP32BE_bit)
  apply (auto simp: bit_simps)
  done

lemma store_u32_other: "b < a \<or> a + 4 \<le> b \<Longrightarrow> store_u32 mem a v b = mem b"
  by (auto simp: store_u32_def)

lemma load_u32_be_cong:
  "(\<And>i. i < 4 \<Longrightarrow> m1 (a + i) = m2 (a + i)) \<Longrightarrow> load_u32_be m1 a = load_u32_be m2 a"
proof -
  assume h: "\<And>i. i < 4 \<Longrightarrow> m1 (a + i) = m2 (a + i)"
  have "m1 a = m2 a" using h [of 0] by simp
  moreover have "m1 (a + 1) = m2 (a + 1)" using h [of 1] by simp
  moreover have "m1 (a + 2) = m2 (a + 2)" using h [of 2] by simp
  moreover have "m1 (a + 3) = m2 (a + 3)" using h [of 3] by simp
  ultimately show ?thesis by (simp add: load_u32_be_def)
qed

lemma bind_variable_memory:
  "memory (bind_variable var s) =
     (if binds_slot var then store_u32 (memory s) (unat (address var)) (slot_value var)
      else memory s)"
  by (simp add: bind_variable_def binds_slot_def slot_value_def XELOGCPU_def
           split: option.splits)

lemma bind_variable_cpu_log: "cpu_log (bind_variable var s) = cpu_log s @ warning_of var"
  by (simp add: bind_variable_def warning_of_def XELOGCPU_def split: option.splits)

lemma bind_variable_rest:
  "trace (bind_variable var s) = trace s \<and> gen_module (bind_variable var s) = gen_module s
   \<and> sdb (bind_variable var s) = sdb s"
  by (simp add: bind_variable_def XELOGCPU_def split: option.splits)

lemma bind_variables_memory:
  "memory (bind_variables vs s) =
     foldl (\<lambda>mem var. store_u32 mem (unat (address var)) (slot_value var)) (memory s)
       (filter binds_slot vs)"
  by (induction vs arbitrary: s) (simp_all add: bind_variable_memory)

lemma bind_variables_cpu_log:
  "cpu_log (bind_variables vs s) = cpu_log s @ concat (map warning_of vs)"
  by (induction vs arbitrary: s) (simp_all add: bind_variable_cpu_log)

lemma bind_variables_rest:
  "trace (bind_variables vs s) = trace s \<and> gen_module (bind_variables vs s) = gen_module s
   \<and> sdb (bind_variables vs s) = sdb s"
  by (induction vs arbitrary: s) (simp_all add: bind_variable_rest)

lemma bind_variables_append:
  "bind_variables (xs @ ys) s = bind_variables ys (bind_variables xs s)"
  by (induction xs arbitrary: s) simp_all

lemma bind_variables_frame_byte:
  "(\<forall>var \<in> set vs. binds_slot var \<longrightarrow> b < unat (address var) \<or> unat (address var) + 4 \<le> b)
   \<Longrightarrow> memory (bind_variables vs s) b = memory s b"
  by (induction vs arbitrary: s) (simp_all add: bind_variable_memory store_u32_other)

lemma bind_variables_keeps_word:
  assumes "\<forall>w \<in> set vs. binds_slot w \<longrightarrow> slots_apart w var"
  shows "load_u32_be (memory (bind_variables vs s)) (unat (address var)) =
         load_u32_be (memory s) (unat (address var))"
proof (rule load_u32_be_cong)
  fix i :: nat
  assume "i < 4"
  with assms have "\<forall>w \<in> set vs. binds_slot w \<longrightarrow>
      unat (address var) + i < unat (address w) \<or> unat (address w) + 4 \<le> unat (address var) + i"
    by (auto simp: slots_apart_def)
  then show "memory (bind_variables vs s) (unat (address var) + i) =
             memory s (unat (address var) + i)"
    by (rule bind_variables_frame_byte)
qed

lemma bind_variables_sets_word:
  assumes "binds_slot var" and "\<forall>w \<in> set ys. binds_slot w \<longrightarrow> slots_apart w var"
  shows "load_u32_be (memory (bind_variables (xs @ var # ys) s)) (unat (address var)) =
         (case kernel_export var of None \<Rightarrow> 0 | Some ke \<Rightarrow>
            if is_implemented ke then variable_ptr ke else 0xDEADBEEF)"
proof -
  have "load_u32_be (memory (bind_variables (xs @ var # ys) s)) (unat (address var)) =
        load_u32_be (memory (bind_variable var (bind_variables xs s))) (unat (address var))"
    using assms(2) by (simp add: bind_variables_append bind_variables_keeps_word)
  also have "\<dots> = (case kernel_export var of None \<Rightarrow> 0 | Some ke \<Rightarrow>
            if is_implemented ke then variable_ptr ke else 0xDEADBEEF)"
    using assms(1)
    by (simp add: bind_variable_memory slot_value_def load_store_swap binds_slot_def
             split: option.splits)
  finally show ?thesis .
qed

lemma Init_memory:
  "GetAllVariables (sdb s) = (0, vs) \<Longrightarrow> memory (snd (Init env s)) = memory (bind_variables vs s)"
  by (simp add: Init_def Let_def emit_def split: option.splits)

lemma Init_cpu_log:
  "GetAllVariables (sdb s) = (0, vs) \<Longrightarrow> cpu_log (snd (Init env s)) = cpu_log (bind_variables vs s)"
  by (simp add: Init_def Let_def emit_def split: option.splits)

lemma Init_result:
  "GetAllVariables (sdb s) = (0, vs) \<Longrightarrow>
   fst (Init env s) =
     (case gen_module s of
        None \<Rightarrow> Inl NullPointerDereference
      | Some m \<Rightarrow> Inr (sint (runFunction env (getFunction m ''xe_module_init''))))"
  by (simp add: Init_def Let_def emit_def bind_variables_rest split: option.splits)

text \<open>
  Claim C2. Let \<^verbatim>\<open>Init\<close> get the variable symbols from the database, and let one of them
  be bound to a kernel export that is not of kind function and is implemented. After
  \<^verbatim>\<open>Init\<close> the guest reads, at the symbol's address, the export's \<^verbatim>\<open>variable_ptr\<close> as a
  big-endian word. The symbols handled later in the loop are taken to have slots of their
  own, as the data model has it: a later write into the same bytes would win.
\<close>

theorem Init_binds_implemented_export:
  assumes "GetAllVariables (sdb s) = (0, xs @ var # ys)"
    and "kernel_export var = Some ke" and "type ke \<noteq> Function" and "is_implemented ke"
    and "\<forall>w \<in> set ys. binds_slot w \<longrightarrow> slots_apart w var"
  shows "load_u32_be (memory (snd (Init env s))) (unat (address var)) = variable_ptr ke"
proof -
  have "binds_slot var" using assms(2,3) by (simp add: binds_slot_def)
  then have "load_u32_be (memory (bind_variables (xs @ var # ys) s)) (unat (address var)) =
             variable_ptr ke"
    using assms(2,4,5) by (simp add: bind_variables_sets_word)
  then show ?thesis using assms(1) by (simp add: Init_memory)
qed

theorem Init_binds_implemented_export_witness:
  "load_u32_be (memory (snd (Init example_env example_prepared))) 0x100 = 0x12345678"
  using Init_binds_implemented_export [of example_prepared "[]" v_implemented
          "[v_unimplemented, v_function, v_unbound]"
          "\<lparr>name = ''KeDebugMonitorData'', type = Variable, is_implemented = True,
            variable_ptr = 0x12345678\<rparr>" example_env]
  by (simp add: example_prepared_def example_module_def example_sdb_def v_implemented_def
        v_unimplemented_def v_function_def v_unbound_def binds_slot_def slots_apart_def)

text \<open>
  Claim C6. For a symbol bound to a kernel export that is not of kind function and is not
  implemented, the guest reads the sentinel \<^verbatim>\<open>0xDEADBEEF\<close> at the symbol's address after
  \<^verbatim>\<open>Init\<close>; the log has gained exactly one warning for this symbol, naming the export, between
  the warnings of the symbols before it and of those after it; and the result of \<^verbatim>\<open>Init\<close> is
  the result of the guest entry point, as it is without any such symbol.
\<close>

theorem Init_unimplemented_export:
  assumes "GetAllVariables (sdb s) = (0, xs @ var # ys)"
    and "kernel_export var = Some ke" and "type ke \<noteq> Function" and "\<not> is_implemented ke"
    and "\<forall>w \<in> set ys. binds_slot w \<longrightarrow> slots_apart w var"
  shows "load_u32_be (memory (snd (Init env s))) (unat (address var)) = 0xDEADBEEF
       \<and> cpu_log (snd (Init env s)) =
           cpu_log s @ concat (map warning_of xs)
             @ [''WARNING: imported a variable with no value: '' @ name ke]
             @ concat (map warning_of ys)
       \<and> fst (Init env s) =
           (case gen_module s of
              None \<Rightarrow> Inl NullPointerDereference
            | Some m \<Rightarrow> Inr (sint (runFunction env (getFunction m ''xe_module_init''))))"
proof -
  have "binds_slot var" using assms(2,3) by (simp add: binds_slot_def)
  then have "load_u32_be (memory (bind_variables (xs @ var # ys) s)) (unat (address var)) =
             0xDEADBEEF"
    using assms(2,4,5) by (simp add: bind_variables_sets_word)
  then have mem: "load_u32_be (memory (snd (Init env s))) (unat (address var)) = 0xDEADBEEF"
    using assms(1) by (simp add: Init_memory)
  have "warning_of var = [''WARNING: imported a variable with no value: '' @ name ke]"
    using assms(2,3,4) by (simp add: warning_of_def)
  then have lg: "cpu_log (snd (Init env s)) =
           cpu_log s @ concat (map warning_of xs)
             @ [''WARNING: imported a variable with no value: '' @ name ke]
             @ concat (map warning_of ys)"
    using assms(1) by (simp add: Init_cpu_log bind_variables_cpu_log)
  show ?thesis using mem lg Init_result [OF assms(1)] by simp
qed

theorem Init_unimplemented_export_witness:
  "load_u32_be (memory (snd (Init example_env example_prepared))) 0x104 = 0xDEADBEEF
   \<and> cpu_log (snd (Init example_env example_prepared)) =
       [''WARNING: imported a variable with no value: XboxHardwareInfo'']
   \<and> fst (Init example_env example_prepared) = Inr 0"
  using Init_unimplemented_export [of example_prepared "[v_implemented]" v_unimplemented
          "[v_function, v_unbound]"
          "\<lparr>name = ''XboxHardwareInfo'', type = Variable, is_implemented = False,
            variable_ptr = 0\<rparr>" example_env]
  by (simp add: example_prepared_def example_module_def example_sdb_def v_implemented_def
        v_unimplemented_def v_function_def v_unbound_def binds_slot_def slots_apart_def
        warning_of_def example_generated_def getFunction_def example_env_def)

lemma Init_memory_rc:
  "GetAllVariables (sdb s) = (rc, vs) \<Longrightarrow>
   memory (snd (Init env s)) = (if rc \<noteq> 0 then memory s else memory (bind_variables vs s))"
  by (simp add: Init_def Let_def emit_def split: option.splits)

lemma store_swapped_byte:
  "store_u32 mem a (XESWAP32BE v) b =
     (if a \<le> b \<and> b < a + 4 then be_byte v (b - a) else mem b)"
proof -
  have b0: "(ucast (XESWAP32BE v) :: 8 word) = ucast (drop_bit 24 v)"
    by (rule bit_word_eqI) (auto simp: bit_simps XESWAP32BE_bit add.commute)
  have b1: "(ucast (drop_bit 8 (XESWAP32BE v)) :: 8 word) = ucast (drop_bit 16 v)"
    by (rule bit_word_eqI) (auto simp: bit_simps XESWAP32BE_bit add.commute)
  have b2: "(ucast (drop_bit 16 (XESWAP32BE v)) :: 8 word) = ucast (drop_bit 8 v)"
    by (rule bit_word_eqI) (auto simp: bit_simps XESWAP32BE_bit add.commute)
  have b3: "(ucast (drop_bit 24 (XESWAP32BE v)) :: 8 word) = ucast v"
    by (rule bit_word_eqI) (auto simp: bit_simps XESWAP32BE_bit add.commute)
  consider "b = a" | "b = a + 1" | "b = a + 2" | "b = a + 3" | "b < a \<or> a + 4 \<le> b"
    by arith
  then show ?thesis
  proof cases
    case 1 then show ?thesis by (simp add: store_u32_def be_byte_def b0)
  next
    case 2 then show ?thesis by (simp add: store_u32_def be_byte_def b1)
  next
    case 3 then show ?thesis by (simp add: store_u32_def be_byte_def b2)
  next
    case 4 then show ?thesis by (simp add: store_u32_def be_byte_def b3)
  next
    case 5 then show ?thesis by (auto simp: store_u32_def)
  qed
qed

lemma bind_variable_byte:
  "memory (bind_variable var s) b =
     (if in_slot b var then be_byte (guest_value var) (b - unat (address var))
      else memory s b)"
  by (auto simp: bind_variable_def in_slot_def binds_slot_def guest_value_def XELOGCPU_def
        store_swapped_byte split: option.splits)

lemma find_snoc:
  "find P (xs @ [x]) = (case find P xs of Some y \<Rightarrow> Some y | None \<Rightarrow> if P x then Some x else None)"
  by (induction xs) auto

lemma bind_variables_byte:
  "memory (bind_variables vs s) b = bound_byte vs (memory s) b"
proof (induction vs arbitrary: s)
  case Nil
  show ?case by (simp add: bound_byte_def)
next
  case (Cons v vs)
  have "memory (bind_variables (v # vs) s) b = bound_byte vs (memory (bind_variable v s)) b"
    using Cons.IH by simp
  also have "\<dots> = bound_byte (v # vs) (memory s) b"
    by (simp add: bound_byte_def find_snoc bind_variable_byte split: option.splits)
  finally show ?case .
qed

text \<open>
  Claim C10. After \<^verbatim>\<open>Init\<close> every byte of guest memory is read back as follows: an address in
  the 4-byte slot of a symbol bound to an export that is not of kind function holds the
  byte of that symbol's value in big-endian order (of the last such symbol, should slots
  share the address); every other address, the address of an unbound symbol or of one bound
  to a function export included, holds the byte it held before. When \<^verbatim>\<open>GetAllVariables\<close>
  fails nothing is written.
\<close>

theorem Init_writes_bound_slots:
  assumes "GetAllVariables (sdb s) = (rc, variables)"
  shows "memory (snd (Init env s)) b =
           (if rc \<noteq> 0 then memory s b else bound_byte variables (memory s) b)
       \<and> ((\<forall>var \<in> set variables. binds_slot var \<longrightarrow>
               b < unat (address var) \<or> unat (address var) + 4 \<le> b)
            \<longrightarrow> memory (snd (Init env s)) b = memory s b)"
  using assms by (simp add: Init_memory_rc bind_variables_byte [symmetric]
                    bind_variables_frame_byte)

theorem Init_writes_bound_slots_witness:
  "memory (snd (Init example_env example_prepared)) 0xFF = 0
   \<and> memory (snd (Init example_env example_prepared)) 0x100 = 0x12
   \<and> memory (snd (Init example_env example_prepared)) 0x101 = 0x34
   \<and> memory (snd (Init example_env example_prepared)) 0x102 = 0x56
   \<and> memory (snd (Init example_env example_prepared)) 0x103 = 0x78
   \<and> memory (snd (Init example_env example_prepared)) 0x104 = 0xDE
   \<and> memory (snd (Init example_env example_prepared)) 0x105 = 0xAD
   \<and> memory (snd (Init example_env example_prepared)) 0x106 = 0xBE
   \<and> memory (snd (Init example_env example_prepared)) 0x107 = 0xEF
   \<and> memory (snd (Init example_env example_prepared)) 0x108 = 0
   \<and> memory (snd (Init example_env example_prepared)) 0x10C = 0"
proof -
  have g: "GetAllVariables (sdb example_prepared) =
           (0, [v_implemented, v_unimplemented, v_function, v_unbound])"
    by (simp add: example_prepared_def example_module_def example_sdb_def)
  have m: "memory example_prepared = (\<lambda>a. 0)"
    by (simp add: example_prepared_def example_module_def)
  note w = Init_writes_bound_slots [OF g, of example_env]
  show ?thesis
    using w [of "0xFF"] w [of "0x100"] w [of "0x101"] w [of "0x102"] w [of "0x103"]
      w [of "0x104"] w [of "0x105"] w [of "0x106"] w [of "0x107"] w [of "0x108"] w [of "0x10C"]
    by (simp add: m bound_byte_def in_slot_def binds_slot_def guest_value_def be_byte_def
          v_implemented_def v_unimplemented_def v_function_def v_unbound_def)
qed

lemma bind_variable_function:
  "kernel_export var = Some ke \<Longrightarrow> type ke = Function \<Longrightarrow> bind_variable var s = s"
  by (simp add: bind_variable_def)

lemma bind_variables_sdb_update:
  "bind_variables vs (s\<lparr>sdb := d\<rparr>) = (bind_variables vs s)\<lparr>sdb := d\<rparr>"
proof (induction vs arbitrary: s)
  case Nil
  show ?case by simp
next
  case (Cons v vs)
  have "bind_variable v (s\<lparr>sdb := d\<rparr>) = (bind_variable v s)\<lparr>sdb := d\<rparr>"
    by (simp add: bind_variable_def XELOGCPU_def split: option.splits)
  then show ?case using Cons.IH by simp
qed

text \<open>
  Claim C7. A symbol bound to a kernel export of kind function makes no difference to
  \<^verbatim>\<open>Init\<close>: with the symbol taken out of the database, \<^verbatim>\<open>Init\<close> gives the same result, memory,
  log and calls. The four bytes at its address are the same after \<^verbatim>\<open>Init\<close> as before, when
  no other symbol's slot that the loop writes shares them.
\<close>

theorem Init_function_export_noop:
  assumes "GetAllVariables (sdb s) = (rc, xs @ var # ys)"
    and "kernel_export var = Some ke" and "type ke = Function"
  shows "Init env (s\<lparr>sdb := (sdb s)\<lparr>GetAllVariables := (rc, xs @ ys)\<rparr>\<rparr>) =
           (fst (Init env s),
            (snd (Init env s))\<lparr>sdb := (sdb s)\<lparr>GetAllVariables := (rc, xs @ ys)\<rparr>\<rparr>)
       \<and> ((\<forall>w \<in> set (xs @ ys). binds_slot w \<longrightarrow> slots_apart w var) \<longrightarrow>
            (\<forall>i < 4. memory (snd (Init env s)) (unat (address var) + i) =
                      memory s (unat (address var) + i)))"
proof -
  have noop: "bind_variables (xs @ var # ys) t = bind_variables (xs @ ys) t" for t
    using assms(2,3) by (simp add: bind_variables_append bind_variable_function)
  have first: "Init env (s\<lparr>sdb := (sdb s)\<lparr>GetAllVariables := (rc, xs @ ys)\<rparr>\<rparr>) =
           (fst (Init env s),
            (snd (Init env s))\<lparr>sdb := (sdb s)\<lparr>GetAllVariables := (rc, xs @ ys)\<rparr>\<rparr>)"
    using assms(1)
    by (simp add: Init_def Let_def emit_def noop bind_variables_sdb_update bind_variables_rest
             split: option.splits)
  have second: "\<forall>i < 4. memory (snd (Init env s)) (unat (address var) + i) =
                      memory s (unat (address var) + i)"
    if apart: "\<forall>w \<in> set (xs @ ys). binds_slot w \<longrightarrow> slots_apart w var"
  proof (intro allI impI)
    fix i :: nat
    assume "i < 4"
    with apart have "\<forall>w \<in> set (xs @ ys). binds_slot w \<longrightarrow>
        unat (address var) + i < unat (address w) \<or> unat (address w) + 4 \<le> unat (address var) + i"
      by (auto simp: slots_apart_def)
    then have "memory (bind_variables (xs @ ys) s) (unat (address var) + i) =
               memory s (unat (address var) + i)"
      by (rule bind_variables_frame_byte)
    then show "memory (snd (Init env s)) (unat (address var) + i) =
               memory s (unat (address var) + i)"
      using assms(1) by (simp add: Init_memory_rc noop)
  qed
  show ?thesis using first second by blast
qed

theorem Init_function_export_noop_witness:
  "fst (Init example_env (example_prepared\<lparr>sdb := example_sdb\<lparr>GetAllVariables :=
          (0, [v_implemented, v_unimplemented, v_unbound])\<rparr>\<rparr>)) =
     fst (Init example_env example_prepared)
   \<and> memory (snd (Init example_env example_prepared)) 0x108 = 0
   \<and> memory (snd (Init example_env example_prepared)) 0x109 = 0
   \<and> memory (snd (Init example_env example_prepared)) 0x10A = 0
   \<and> memory (snd (Init example_env example_prepared)) 0x10B = 0"
proof -
  have h: "fst (Init example_env (example_prepared\<lparr>sdb := example_sdb\<lparr>GetAllVariables :=
          (0, [v_implemented, v_unimplemented, v_unbound])\<rparr>\<rparr>)) =
     fst (Init example_env example_prepared)
   \<and> (\<forall>i < 4. memory (snd (Init example_env example_prepared)) (0x108 + i) = 0)"
    using Init_function_export_noop [of example_prepared 0 "[v_implemented, v_unimplemented]"
          v_function "[v_unbound]"
          "\<lparr>name = ''NtClose'', type = Function, is_implemented = True, variable_ptr = 0\<rparr>"
          example_env]
    by (simp add: example_prepared_def example_module_def example_sdb_def v_implemented_def
        v_unimplemented_def v_function_def v_unbound_def binds_slot_def slots_apart_def)
  then have b: "\<And>i. i < 4 \<Longrightarrow> memory (snd (Init example_env example_prepared)) (0x108 + i) = 0"
    by blast
  show ?thesis using h b [of 0] b [of 1] b [of 2] b [of 3] by simp
qed

section \<open>Prepare, Init and Uninit as sequences of calls\<close>

lemma force_jit_eq: "force_jit (FunctionList m) s = s\<lparr>trace := trace s @ jit_calls m\<rparr>"
proof -
  have "force_jit fns s =
     s\<lparr>trace := trace s @ map (\<lambda>fn. E_getPointerToFunction (fn_name fn))
                            (filter (\<lambda>fn. \<not> isDeclaration fn) fns)\<rparr>" for fns
    by (induction fns arbitrary: s) (simp_all add: emit_def)
  then show ?thesis by (simp add: jit_calls_def)
qed

lemma bind_variables_fields:
  "trace (bind_variables vs s) = trace s"
  "gen_module (bind_variables vs s) = gen_module s"
  "sdb (bind_variables vs s) = sdb s"
  by (simp_all add: bind_variables_rest)

lemma Init_Some:
  "gen_module s = Some m \<Longrightarrow>
   Init env s =
     (if fst (GetAllVariables (sdb s)) \<noteq> 0 then (Inr 1, s)
      else (Inr (sint (runFunction env (getFunction m ''xe_module_init''))),
            (bind_variables (snd (GetAllVariables (sdb s))) s)\<lparr>trace := trace s @ init_calls m\<rparr>))"
  by (simp add: Init_def Let_def emit_def init_calls_def bind_variables_fields
           split: prod.splits)

lemma init_and_jit_Some:
  "gen_module s = Some m \<Longrightarrow>
   init_and_jit env s =
     (if fst (GetAllVariables (sdb s)) \<noteq> 0 then (Inr 1, s)
      else if sint (runFunction env (getFunction m ''xe_module_init'')) \<noteq> 0 then
        (Inr 1, (bind_variables (snd (GetAllVariables (sdb s))) s)
                  \<lparr>trace := trace s @ init_calls m\<rparr>)
      else
        (Inr 0, (bind_variables (snd (GetAllVariables (sdb s))) s)
                  \<lparr>trace := trace s @ init_calls m @ jit_calls m\<rparr>))"
  by (simp add: init_and_jit_def Init_Some bind_variables_fields force_jit_eq)

lemma finish_module_Some:
  "gen_module s = Some m \<Longrightarrow>
   finish_module env msg s =
     (if fst (MaterializeAllPermanently env m) then
        (Inr 1, s\<lparr>gen_module := Some (snd (MaterializeAllPermanently env m)),
                  trace := trace s @ [E_MaterializeAllPermanently]\<rparr>)
      else if FLAGS_optimize_ir_modules env \<and> FLAGS_dump_module_bitcode env then
        (if raw_fd_ostream env
              (xesnprintfa 2048 [FLAGS_dump_path env, exec_module_name s, ''.bc'']) msg \<noteq> []
         then (Inr 1, s\<lparr>gen_module := Some (optimized env m),
                 trace := trace s @ optimize_calls env @
                   [E_raw_fd_ostream
                      (xesnprintfa 2048 [FLAGS_dump_path env, exec_module_name s, ''.bc''])]\<rparr>)
         else init_and_jit env (s\<lparr>gen_module := Some (optimized env m),
                 trace := trace s @ optimize_calls env @
                   [E_raw_fd_ostream
                      (xesnprintfa 2048 [FLAGS_dump_path env, exec_module_name s, ''.bc'']),
                    E_WriteBitcodeToFile
                      (xesnprintfa 2048 [FLAGS_dump_path env, exec_module_name s, ''.bc''])]\<rparr>))
      else init_and_jit env (s\<lparr>gen_module := Some (optimized env m),
                 trace := trace s @ optimize_calls env\<rparr>))"
  by (simp add: finish_module_def Let_def emit_def split_def optimized_def optimize_calls_def)

lemma InjectGlobals_Some:
  "gen_module s = Some m \<Longrightarrow>
   InjectGlobals env s =
     (Inr 0, s\<lparr>gen_module := Some (injected env m),
               trace := trace s @ map E_addGlobalMapping trampolines\<rparr>)"
  by (simp add: InjectGlobals_def declare_trampoline_def emit_def Let_def injected_def
        trampolines_def)

lemma phase_init_calls: "map phase (init_calls m) = [1, 1]"
  by (simp add: init_calls_def)

lemma phase_jit_calls: "map phase (jit_calls m) = replicate (length (jit_calls m)) 2"
  by (simp add: jit_calls_def map_replicate_const [symmetric] comp_def)

lemma phase_optimize_calls: "map phase (optimize_calls env) = [0, 0, 0]"
  by (simp add: optimize_calls_def)

lemma phase_trampolines: "map phase (map E_addGlobalMapping trampolines) = [0, 0, 0, 0, 0, 0]"
  by (simp add: trampolines_def)

lemmas finish_unfold =
  finish_module_Some init_and_jit_Some calls_def bind_variables_fields

lemma finish_module_trace:
  assumes "gen_module s = Some m" and "finish_module env msg s = (r, s')"
  shows "trace s' = trace s @ calls s s'"
  using assms by (auto simp: finish_unfold split: if_splits)

lemma finish_module_result:
  assumes "gen_module s = Some m" and "finish_module env msg s = (r, s')"
  shows "r = Inr 0 \<or> r = Inr 1"
  using assms by (auto simp: finish_unfold split: if_splits)


lemma finish_module_success:
  assumes "gen_module s = Some m" and "finish_module env msg s = (Inr 0, s')"
  shows "gen_module s' = Some (optimized env m)"
  using assms by (auto simp: finish_unfold split: if_splits)

lemma finish_module_sorted:
  assumes "gen_module s = Some m" and "finish_module env msg s = (r, s')"
  shows "sorted (map phase (calls s s'))"
  using assms
  by (auto simp: finish_unfold phase_init_calls phase_jit_calls phase_optimize_calls
        sorted_append split: if_splits)

lemma filter_phase_jit:
  "filter (\<lambda>e. phase e = 2) (jit_calls m) = jit_calls m"
  "filter (\<lambda>e. phase e = Suc 0) (jit_calls m) = []"
  "filter (\<lambda>e. phase e = 2) (init_calls m) = []"
  "filter (\<lambda>e. phase e = Suc 0) (init_calls m) = init_calls m"
  "filter (\<lambda>e. phase e = 2) (optimize_calls env) = []"
  "filter (\<lambda>e. phase e = Suc 0) (optimize_calls env) = []"
  by (simp_all add: jit_calls_def init_calls_def optimize_calls_def filter_map comp_def)

lemma finish_module_jit:
  assumes "gen_module s = Some m" and "finish_module env msg s = (r, s')"
  shows "filter (\<lambda>e. phase e = 2) (calls s s') =
           (if r = Inr 0 then jit_calls (optimized env m) else [])"
  using assms by (auto simp: finish_unfold filter_phase_jit split: if_splits)

lemma finish_module_init:
  assumes "gen_module s = Some m" and "finish_module env msg s = (Inr 0, s')"
  shows "filter (\<lambda>e. phase e = Suc 0) (calls s s') = init_calls (optimized env m)"
  using assms by (auto simp: finish_unfold filter_phase_jit split: if_splits)








lemmas generate_unfold =
  generate_module_def InjectGlobals_Some emit_def Let_def split_def calls_def

lemma generate_module_trace:
  assumes "generate_module env s = (r, msg, s')"
  shows "trace s' = trace s @ calls s s'"
  using assms by (auto simp: generate_unfold split: if_splits option.splits)

lemma generate_module_result:
  assumes "generate_module env s = (r, msg, s')"
  shows "r = Inr 0 \<or> r = Inr 1"
  using assms by (auto simp: generate_unfold split: if_splits option.splits)

lemma generate_module_success:
  assumes "generate_module env s = (Inr 0, msg, s')"
  shows "\<exists>m. gen_module s' = Some m"
  using assms by (auto simp: generate_unfold split: if_splits option.splits)

lemma generate_module_phase:
  assumes "generate_module env s = (r, msg, s')"
  shows "\<forall>e \<in> set (calls s s'). phase e = 0 \<and> (\<forall>passes. e \<noteq> E_run passes)"
  using assms
  by (auto simp: generate_unfold trampolines_def split: if_splits option.splits)


lemma Prepare_cases:
  assumes "Prepare env s = (r, s')"
  obtains
    (skip) m where "gen_module s = Some m" and "finish_module env [] s = (r, s')"
  | (abort) msg where "gen_module s = None" and "generate_module env s = (r, msg, s')"
      and "r = Inr 1"
  | (full) msg sg mg where "gen_module s = None"
      and "generate_module env s = (Inr 0, msg, sg)" and "gen_module sg = Some mg"
      and "finish_module env msg sg = (r, s')"
proof (cases "gen_module s")
  case (Some m)
  then show ?thesis using assms skip by (simp add: Prepare_def)
next
  case None
  obtain rg msg sg where g: "generate_module env s = (rg, msg, sg)"
    by (cases "generate_module env s") auto
  from generate_module_result [OF g] show ?thesis
  proof
    assume r0: "rg = Inr 0"
    with generate_module_success g obtain mg where "gen_module sg = Some mg" by blast
    moreover have "finish_module env msg sg = (r, s')"
      using assms None g r0 by (simp add: Prepare_def)
    ultimately show ?thesis using full None g r0 by blast
  next
    assume r1: "rg = Inr 1"
    then have "r = Inr 1" "s' = sg" using assms None g by (simp_all add: Prepare_def)
    then show ?thesis using abort None g r1 by blast
  qed
qed

lemma calls_append:
  "trace s1 = trace s0 @ calls s0 s1 \<Longrightarrow> trace s2 = trace s1 @ calls s1 s2 \<Longrightarrow>
   calls s0 s2 = calls s0 s1 @ calls s1 s2 \<and> trace s2 = trace s0 @ calls s0 s2"
proof -
  assume a: "trace s1 = trace s0 @ calls s0 s1" and b: "trace s2 = trace s1 @ calls s1 s2"
  have "trace s2 = trace s0 @ (calls s0 s1 @ calls s1 s2)"
    using a b by simp
  then show ?thesis by (simp add: calls_def [of s0 s2])
qed


lemmas example_defs =
  example_env_def example_module_def example_sdb_def example_thunk_def
  example_prepared_def example_generated_def env_init_fails_def env_dump_def
  env_dump_fails_def example_failed_analysis_def example_no_entry_points_def

lemmas evaluate =
  Prepare_def generate_module_def InjectGlobals_Some finish_module_Some init_and_jit_Some
  emit_def Let_def split_def thunk_path_def getFunction_def pm_def pmb_def optimized_def
  optimize_calls_def init_calls_def jit_calls_def injected_def trampolines_def
  xesnprintfa_def bind_variables_fields calls_def

lemma example_first:
  "fst (Prepare example_env example_module) = Inr 0
   \<and> trace (snd (Prepare example_env example_module)) =
       [E_getFile ''src/cpu/xethunk/xethunk.bc'', E_ParseBitcodeFile, E_Analyze,
        E_new_Module ''game'', E_addGlobalMapping ''XeTrap'',
        E_addGlobalMapping ''XeIndirectBranch'', E_addGlobalMapping ''XeInvalidInstruction'',
        E_addGlobalMapping ''XeTraceKernelCall'', E_addGlobalMapping ''XeTraceUserCall'',
        E_addGlobalMapping ''XeTraceInstruction'', E_LinkModules, E_Generate,
        E_MaterializeAllPermanently, E_setTargetTriple ''host'',
        E_run [DataLayout, VerifierPass],
        E_runStaticConstructorsDestructors False,
        E_runFunction (Some \<lparr>fn_name = ''xe_module_init'', isDeclaration = False\<rparr>),
        E_getPointerToFunction ''xe_module_init'',
        E_getPointerToFunction ''xe_module_uninit'',
        E_getPointerToFunction ''sub_00001000'']
   \<and> gen_module (snd (Prepare example_env example_module)) =
       Some \<lparr>ModuleID = ''game'',
         GlobalList = [\<lparr>gv_name = ''xe_memory_base'', isConstant = True, alignment = 64,
                        initializer = 4294967296\<rparr>],
         FunctionList =
           [\<lparr>fn_name = ''XeTrap'', isDeclaration = True\<rparr>,
            \<lparr>fn_name = ''XeIndirectBranch'', isDeclaration = True\<rparr>,
            \<lparr>fn_name = ''XeInvalidInstruction'', isDeclaration = True\<rparr>,
            \<lparr>fn_name = ''XeTraceKernelCall'', isDeclaration = True\<rparr>,
            \<lparr>fn_name = ''XeTraceUserCall'', isDeclaration = True\<rparr>,
            \<lparr>fn_name = ''XeTraceInstruction'', isDeclaration = True\<rparr>,
            \<lparr>fn_name = ''xe_module_init'', isDeclaration = False\<rparr>,
            \<lparr>fn_name = ''xe_module_uninit'', isDeclaration = False\<rparr>,
            \<lparr>fn_name = ''sub_00001000'', isDeclaration = False\<rparr>],
         TargetTriple = ''host''\<rparr>"
  by (simp add: evaluate example_defs del: bind_variables.simps)

text \<open>
  Claim C8. On a module that has no generated module yet, once the shared module is loaded
  and \<^verbatim>\<open>sdb_->Analyze()\<close> returns nonzero, \<^verbatim>\<open>Prepare\<close> returns 1 and changes nothing but the
  trace, which ends with the call of the analysis: no generated module is created and no
  later stage is called.
\<close>

theorem Prepare_analysis_failure:
  assumes "gen_module s = None" and "getFile env thunk_path = 0"
    and "ParseBitcodeFile env = Some shared_module" and "Analyze (sdb s) \<noteq> 0"
  shows "Prepare env s =
           (Inr 1, s\<lparr>trace := trace s @ [E_getFile thunk_path, E_ParseBitcodeFile, E_Analyze]\<rparr>)
       \<and> gen_module (snd (Prepare env s)) = None"
  using assms by (simp add: Prepare_def generate_module_def emit_def Let_def)

theorem Prepare_analysis_failure_witness:
  "fst (Prepare example_env example_failed_analysis) = Inr 1
   \<and> gen_module (snd (Prepare example_env example_failed_analysis)) = None
   \<and> trace (snd (Prepare example_env example_failed_analysis)) =
       [E_getFile ''src/cpu/xethunk/xethunk.bc'', E_ParseBitcodeFile, E_Analyze]"
  using Prepare_analysis_failure [of example_failed_analysis example_env example_thunk]
  by (simp add: example_defs thunk_path_def)





lemma phase_zero_calls:
  assumes "\<forall>e \<in> set c. phase e = 0"
  shows "sorted (map phase c)"
    and "filter (\<lambda>e. phase e = 2) c = []"
    and "filter (\<lambda>e. phase e = Suc 0) c = []"
  using assms by (induction c) auto

lemma Prepare_phases:
  assumes P: "Prepare env s = (r, s')"
  shows "sorted (map phase (calls s s'))
       \<and> (r = Inr 0 \<longrightarrow>
            (\<exists>m. gen_module s' = Some m
                \<and> filter (\<lambda>e. phase e = 1) (calls s s') = init_calls m
                \<and> filter (\<lambda>e. phase e = 2) (calls s s') = jit_calls m))
       \<and> (r \<noteq> Inr 0 \<longrightarrow> filter (\<lambda>e. phase e = 2) (calls s s') = [])"
  using P
proof (cases rule: Prepare_cases)
  case (skip m)
  have a: "sorted (map phase (calls s s'))"
    by (rule finish_module_sorted [OF skip(1) skip(2)])
  have b: "filter (\<lambda>e. phase e = 2) (calls s s') =
           (if r = Inr 0 then jit_calls (optimized env m) else [])"
    by (rule finish_module_jit [OF skip(1) skip(2)])
  have c: "r = Inr 0 \<Longrightarrow> gen_module s' = Some (optimized env m)
      \<and> filter (\<lambda>e. phase e = Suc 0) (calls s s') = init_calls (optimized env m)"
    using finish_module_success [OF skip(1)] finish_module_init [OF skip(1)] skip(2) by simp
  show ?thesis using a b c by simp
next
  case (abort msg)
  have z: "\<forall>e \<in> set (calls s s'). phase e = 0"
    using generate_module_phase [OF abort(2)] by blast
  show ?thesis using phase_zero_calls [OF z] abort(3) by simp
next
  case (full msg sg mg)
  have c: "calls s s' = calls s sg @ calls sg s'"
    using calls_append [OF generate_module_trace [OF full(2)]
            finish_module_trace [OF full(3) full(4)]] by simp
  have z: "\<forall>e \<in> set (calls s sg). phase e = 0"
    using generate_module_phase [OF full(2)] by blast
  have a: "sorted (map phase (calls sg s'))"
    by (rule finish_module_sorted [OF full(3) full(4)])
  have b: "filter (\<lambda>e. phase e = 2) (calls sg s') =
           (if r = Inr 0 then jit_calls (optimized env mg) else [])"
    by (rule finish_module_jit [OF full(3) full(4)])
  have d: "r = Inr 0 \<Longrightarrow> gen_module s' = Some (optimized env mg)
      \<and> filter (\<lambda>e. phase e = Suc 0) (calls sg s') = init_calls (optimized env mg)"
    using finish_module_success [OF full(3)] finish_module_init [OF full(3)] full(4) by simp
  have "sorted (map phase (calls s sg) @ map phase (calls sg s'))"
    using phase_zero_calls(1) [OF z] a z by (simp add: sorted_append)
  then show ?thesis using phase_zero_calls(2,3) [OF z] b d by (simp add: c)
qed

lemma Init_Some_result:
  assumes "gen_module s = Some m"
  shows "gen_module (snd (Init env s)) = Some m"
    and "\<exists>rc. fst (Init env s) = Inr rc"
  using assms by (simp_all add: Init_Some bind_variables_fields)

lemma init_and_jit_by_Init:
  assumes "gen_module s = Some m"
  shows "init_and_jit env s =
           (if fst (Init env s) = Inr 0
            then (Inr 0, force_jit (FunctionList m) (snd (Init env s)))
            else (Inr 1, snd (Init env s)))"
  using assms
  by (simp add: init_and_jit_def Init_Some bind_variables_fields)

lemma finish_module_reaches_Init:
  assumes "gen_module s = Some m" and "finish_module env msg s = (r, s')"
  shows "(r = Inr 1 \<and> (\<forall>e \<in> set (calls s s'). phase e = 0))
       \<or> (\<exists>si. trace si = trace s @ calls s si \<and> (\<forall>e \<in> set (calls s si). phase e = 0)
               \<and> gen_module si = Some (optimized env m)
               \<and> (r, s') = init_and_jit env si)"
proof -
  let ?f = "xesnprintfa 2048 [FLAGS_dump_path env, exec_module_name s, ''.bc'']"
  let ?a = "s\<lparr>gen_module := Some (optimized env m),
               trace := trace s @ optimize_calls env @
                 [E_raw_fd_ostream ?f, E_WriteBitcodeToFile ?f]\<rparr>"
  let ?b = "s\<lparr>gen_module := Some (optimized env m), trace := trace s @ optimize_calls env\<rparr>"
  have pa: "trace ?a = trace s @ calls s ?a \<and> (\<forall>e \<in> set (calls s ?a). phase e = 0)
            \<and> gen_module ?a = Some (optimized env m)"
    by (simp add: calls_def optimize_calls_def)
  have pb: "trace ?b = trace s @ calls s ?b \<and> (\<forall>e \<in> set (calls s ?b). phase e = 0)
            \<and> gen_module ?b = Some (optimized env m)"
    by (simp add: calls_def optimize_calls_def)
  have "(r = Inr 1 \<and> (\<forall>e \<in> set (calls s s'). phase e = 0))
      \<or> (r, s') = init_and_jit env ?a \<or> (r, s') = init_and_jit env ?b"
    using assms
    by (auto simp: finish_module_Some calls_def optimize_calls_def split: if_splits)
  then show ?thesis using pa pb by blast
qed

lemma Prepare_reaches_Init:
  assumes P: "Prepare env s = (r, s')"
  shows "(r = Inr 1 \<and> (\<forall>e \<in> set (calls s s'). phase e = 0))
       \<or> (\<exists>si m. trace si = trace s @ calls s si \<and> (\<forall>e \<in> set (calls s si). phase e = 0)
               \<and> gen_module si = Some m
               \<and> (r, s') =
                   (if fst (Init env si) = Inr 0
                    then (Inr 0, force_jit (FunctionList m) (snd (Init env si)))
                    else (Inr 1, snd (Init env si))))"
  using P
proof (cases rule: Prepare_cases)
  case (skip m)
  from finish_module_reaches_Init [OF skip(1) skip(2)] show ?thesis
  proof
    assume "r = Inr 1 \<and> (\<forall>e \<in> set (calls s s'). phase e = 0)"
    then show ?thesis by blast
  next
    assume "\<exists>si. trace si = trace s @ calls s si \<and> (\<forall>e \<in> set (calls s si). phase e = 0)
               \<and> gen_module si = Some (optimized env m)
               \<and> (r, s') = init_and_jit env si"
    then obtain si where si: "trace si = trace s @ calls s si"
        "\<forall>e \<in> set (calls s si). phase e = 0"
        "gen_module si = Some (optimized env m)" "(r, s') = init_and_jit env si"
      by blast
    have "(r, s') =
           (if fst (Init env si) = Inr 0
            then (Inr 0, force_jit (FunctionList (optimized env m)) (snd (Init env si)))
            else (Inr 1, snd (Init env si)))"
      using si(4) init_and_jit_by_Init [OF si(3)] by simp
    then show ?thesis using si(1,2,3) by blast
  qed
next
  case (abort msg)
  have "\<forall>e \<in> set (calls s s'). phase e = 0"
    using generate_module_phase [OF abort(2)] by blast
  then show ?thesis using abort(3) by blast
next
  case (full msg sg mg)
  have g: "trace sg = trace s @ calls s sg" by (rule generate_module_trace [OF full(2)])
  have z: "\<forall>e \<in> set (calls s sg). phase e = 0"
    using generate_module_phase [OF full(2)] by blast
  from finish_module_reaches_Init [OF full(3) full(4)] show ?thesis
  proof
    assume a: "r = Inr 1 \<and> (\<forall>e \<in> set (calls sg s'). phase e = 0)"
    have "calls s s' = calls s sg @ calls sg s'"
      using calls_append [OF g finish_module_trace [OF full(3) full(4)]] by simp
    then have "\<forall>e \<in> set (calls s s'). phase e = 0" using z a by auto
    then show ?thesis using a by blast
  next
    assume "\<exists>si. trace si = trace sg @ calls sg si \<and> (\<forall>e \<in> set (calls sg si). phase e = 0)
               \<and> gen_module si = Some (optimized env mg)
               \<and> (r, s') = init_and_jit env si"
    then obtain si where si: "trace si = trace sg @ calls sg si"
        "\<forall>e \<in> set (calls sg si). phase e = 0"
        "gen_module si = Some (optimized env mg)" "(r, s') = init_and_jit env si"
      by blast
    have c: "calls s si = calls s sg @ calls sg si \<and> trace si = trace s @ calls s si"
      by (rule calls_append [OF g si(1)])
    then have t: "trace si = trace s @ calls s si" by simp
    have p: "\<forall>e \<in> set (calls s si). phase e = 0" using c z si(2) by auto
    have "(r, s') =
           (if fst (Init env si) = Inr 0
            then (Inr 0, force_jit (FunctionList (optimized env mg)) (snd (Init env si)))
            else (Inr 1, snd (Init env si)))"
      using si(4) init_and_jit_by_Init [OF si(3)] by simp
    then show ?thesis using t p si(3) by blast
  qed
qed

text \<open>
  Claim C4, as the code has it. The source calls \<^verbatim>\<open>Init()\<close> first and forces the JIT of the
  functions afterwards. The calls of one \<^verbatim>\<open>Prepare\<close> are ordered by phase, so no forced
  compilation comes before an engine call of \<^verbatim>\<open>Init\<close>. Every \<^verbatim>\<open>Prepare\<close> either returns 1
  without any call of \<^verbatim>\<open>Init\<close> or of the JIT loop, or reaches \<^verbatim>\<open>Init\<close> in some state; then, if
  \<^verbatim>\<open>Init\<close> returns 0, \<^verbatim>\<open>Prepare\<close> returns 0 and its final state is that of \<^verbatim>\<open>Init\<close> with the JIT
  loop run on it, and if \<^verbatim>\<open>Init\<close> returns anything else, \<^verbatim>\<open>Prepare\<close> returns 1 and its final
  state is exactly that of \<^verbatim>\<open>Init\<close>: the loop is skipped.
\<close>

theorem Prepare_init_before_jit:
  "sorted (map phase (calls s (snd (Prepare env s))))
   \<and> (fst (Prepare env s) = Inr 0 \<longrightarrow>
        (\<exists>m. gen_module (snd (Prepare env s)) = Some m
            \<and> filter (\<lambda>e. phase e = 1) (calls s (snd (Prepare env s))) = init_calls m
            \<and> filter (\<lambda>e. phase e = 2) (calls s (snd (Prepare env s))) = jit_calls m))
   \<and> (fst (Prepare env s) \<noteq> Inr 0 \<longrightarrow>
        filter (\<lambda>e. phase e = 2) (calls s (snd (Prepare env s))) = [])
   \<and> ((fst (Prepare env s) = Inr 1 \<and> (\<forall>e \<in> set (calls s (snd (Prepare env s))). phase e = 0))
      \<or> (\<exists>si m. trace si = trace s @ calls s si \<and> (\<forall>e \<in> set (calls s si). phase e = 0)
               \<and> gen_module si = Some m
               \<and> Prepare env s =
                   (if fst (Init env si) = Inr 0
                    then (Inr 0, force_jit (FunctionList m) (snd (Init env si)))
                    else (Inr 1, snd (Init env si)))))"
proof -
  have P: "Prepare env s = (fst (Prepare env s), snd (Prepare env s))" by simp
  have a: "sorted (map phase (calls s (snd (Prepare env s))))
   \<and> (fst (Prepare env s) = Inr 0 \<longrightarrow>
        (\<exists>m. gen_module (snd (Prepare env s)) = Some m
            \<and> filter (\<lambda>e. phase e = 1) (calls s (snd (Prepare env s))) = init_calls m
            \<and> filter (\<lambda>e. phase e = 2) (calls s (snd (Prepare env s))) = jit_calls m))
   \<and> (fst (Prepare env s) \<noteq> Inr 0 \<longrightarrow>
        filter (\<lambda>e. phase e = 2) (calls s (snd (Prepare env s))) = [])"
    by (rule Prepare_phases [OF P])
  have b: "(fst (Prepare env s) = Inr 1 \<and> (\<forall>e \<in> set (calls s (snd (Prepare env s))). phase e = 0))
      \<or> (\<exists>si m. trace si = trace s @ calls s si \<and> (\<forall>e \<in> set (calls s si). phase e = 0)
               \<and> gen_module si = Some m
               \<and> Prepare env s =
                   (if fst (Init env si) = Inr 0
                    then (Inr 0, force_jit (FunctionList m) (snd (Init env si)))
                    else (Inr 1, snd (Init env si))))"
    using Prepare_reaches_Init [OF P] by simp
  show ?thesis using a b by (intro conjI) simp_all
qed

theorem Prepare_init_before_jit_witness:
  "sorted (map phase (calls example_module (snd (Prepare example_env example_module))))
   \<and> filter (\<lambda>e. phase e = 2) (calls example_module (snd (Prepare example_env example_module))) =
       [E_getPointerToFunction ''xe_module_init'', E_getPointerToFunction ''xe_module_uninit'',
        E_getPointerToFunction ''sub_00001000'']"
proof -
  have a: "fst (Prepare example_env example_module) = Inr 0"
    by (rule conjunct1 [OF example_first])
  have g: "gen_module (snd (Prepare example_env example_module)) =
       Some \<lparr>ModuleID = ''game'',
         GlobalList = [\<lparr>gv_name = ''xe_memory_base'', isConstant = True, alignment = 64,
                        initializer = 4294967296\<rparr>],
         FunctionList =
           [\<lparr>fn_name = ''XeTrap'', isDeclaration = True\<rparr>,
            \<lparr>fn_name = ''XeIndirectBranch'', isDeclaration = True\<rparr>,
            \<lparr>fn_name = ''XeInvalidInstruction'', isDeclaration = True\<rparr>,
            \<lparr>fn_name = ''XeTraceKernelCall'', isDeclaration = True\<rparr>,
            \<lparr>fn_name = ''XeTraceUserCall'', isDeclaration = True\<rparr>,
            \<lparr>fn_name = ''XeTraceInstruction'', isDeclaration = True\<rparr>,
            \<lparr>fn_name = ''xe_module_init'', isDeclaration = False\<rparr>,
            \<lparr>fn_name = ''xe_module_uninit'', isDeclaration = False\<rparr>,
            \<lparr>fn_name = ''sub_00001000'', isDeclaration = False\<rparr>],
         TargetTriple = ''host''\<rparr>"
    using example_first by simp
  note T = Prepare_init_before_jit [of example_module example_env]
  have s: "sorted (map phase (calls example_module (snd (Prepare example_env example_module))))"
    using T by (rule conjunct1)
  have "fst (Prepare example_env example_module) = Inr 0 \<longrightarrow>
        (\<exists>m. gen_module (snd (Prepare example_env example_module)) = Some m
            \<and> filter (\<lambda>e. phase e = 1)
                 (calls example_module (snd (Prepare example_env example_module))) = init_calls m
            \<and> filter (\<lambda>e. phase e = 2)
                 (calls example_module (snd (Prepare example_env example_module))) = jit_calls m)"
    using T by (rule conjunct1 [OF conjunct2])
  with a obtain m where
      m: "gen_module (snd (Prepare example_env example_module)) = Some m"
    and j: "filter (\<lambda>e. phase e = 2) (calls example_module (snd (Prepare example_env example_module)))
            = jit_calls m"
    by blast
  show ?thesis using s m j g by (auto simp: jit_calls_def)
qed

text \<open>
  The order stated in the claim, forced compilation before \<^verbatim>\<open>Init\<close>, is not the order of the
  calls on the concrete module; and when the guest entry point returns 1 the compilation is
  never forced although \<^verbatim>\<open>Init\<close> has run.
\<close>

theorem Prepare_jit_before_init_counterexample:
  "trace (snd (Prepare example_env example_module)) =
       [E_getFile ''src/cpu/xethunk/xethunk.bc'', E_ParseBitcodeFile, E_Analyze,
        E_new_Module ''game'', E_addGlobalMapping ''XeTrap'',
        E_addGlobalMapping ''XeIndirectBranch'', E_addGlobalMapping ''XeInvalidInstruction'',
        E_addGlobalMapping ''XeTraceKernelCall'', E_addGlobalMapping ''XeTraceUserCall'',
        E_addGlobalMapping ''XeTraceInstruction'', E_LinkModules, E_Generate,
        E_MaterializeAllPermanently, E_setTargetTriple ''host'',
        E_run [DataLayout, VerifierPass],
        E_runStaticConstructorsDestructors False,
        E_runFunction (Some \<lparr>fn_name = ''xe_module_init'', isDeclaration = False\<rparr>),
        E_getPointerToFunction ''xe_module_init'',
        E_getPointerToFunction ''xe_module_uninit'',
        E_getPointerToFunction ''sub_00001000'']
   \<and> fst (Prepare env_init_fails example_module) = Inr 1
   \<and> trace (snd (Prepare env_init_fails example_module)) =
       [E_getFile ''src/cpu/xethunk/xethunk.bc'', E_ParseBitcodeFile, E_Analyze,
        E_new_Module ''game'', E_addGlobalMapping ''XeTrap'',
        E_addGlobalMapping ''XeIndirectBranch'', E_addGlobalMapping ''XeInvalidInstruction'',
        E_addGlobalMapping ''XeTraceKernelCall'', E_addGlobalMapping ''XeTraceUserCall'',
        E_addGlobalMapping ''XeTraceInstruction'', E_LinkModules, E_Generate,
        E_MaterializeAllPermanently, E_setTargetTriple ''host'',
        E_run [DataLayout, VerifierPass],
        E_runStaticConstructorsDestructors False,
        E_runFunction (Some \<lparr>fn_name = ''xe_module_init'', isDeclaration = False\<rparr>)]"
  by (simp add: evaluate example_defs del: bind_variables.simps)









lemma init_and_jit_Write:
  assumes "gen_module s = Some m"
  shows "init_and_jit env (s\<lparr>sdb := (sdb s)\<lparr>Write := w\<rparr>\<rparr>) =
           (fst (init_and_jit env s), (snd (init_and_jit env s))\<lparr>sdb := (sdb s)\<lparr>Write := w\<rparr>\<rparr>)"
  using assms by (simp add: init_and_jit_Some bind_variables_sdb_update)

lemma finish_module_Write:
  assumes "gen_module s = Some m"
  shows "finish_module env msg (s\<lparr>sdb := (sdb s)\<lparr>Write := w\<rparr>\<rparr>) =
           (fst (finish_module env msg s),
            (snd (finish_module env msg s))\<lparr>sdb := (sdb s)\<lparr>Write := w\<rparr>\<rparr>)"
proof -
  have i: "init_and_jit env (t\<lparr>sdb := (sdb s)\<lparr>Write := w\<rparr>\<rparr>) =
           (fst (init_and_jit env t), (snd (init_and_jit env t))\<lparr>sdb := (sdb s)\<lparr>Write := w\<rparr>\<rparr>)"
    if "gen_module t = Some m'" and "sdb t = sdb s" for t m'
    using init_and_jit_Write [OF that(1), of env w] that(2) by simp
  have "gen_module (s\<lparr>sdb := (sdb s)\<lparr>Write := w\<rparr>\<rparr>) = Some m" using assms by simp
  note l = finish_module_Some [OF this] finish_module_Some [OF assms]
  have u: "t\<lparr>sdb := d, gen_module := g, trace := tr\<rparr> = t\<lparr>gen_module := g, trace := tr\<rparr>\<lparr>sdb := d\<rparr>"
    for t :: ExecModule and d g tr by simp
  show ?thesis
    unfolding l
    by (simp add: u i del: ExecModule.update_convs)
qed

lemma generate_module_sdb:
  assumes "generate_module env s = (r, msg, s')"
  shows "sdb s' = sdb s"
  using assms by (auto simp: generate_unfold split: if_splits option.splits)

lemma generate_module_Write:
  "generate_module env (s\<lparr>sdb := (sdb s)\<lparr>Write := w\<rparr>\<rparr>) =
     (fst (generate_module env s), fst (snd (generate_module env s)),
      (snd (snd (generate_module env s)))\<lparr>sdb := (sdb s)\<lparr>Write := w\<rparr>\<rparr>)"
  by (simp add: generate_module_def InjectGlobals_Some emit_def Let_def split_def
           split: option.splits)

lemma Prepare_Write:
  "Prepare env (s\<lparr>sdb := (sdb s)\<lparr>Write := w\<rparr>\<rparr>) =
     (fst (Prepare env s), (snd (Prepare env s))\<lparr>sdb := (sdb s)\<lparr>Write := w\<rparr>\<rparr>)"
proof (cases "gen_module s")
  case (Some m)
  then show ?thesis by (simp add: Prepare_def finish_module_Write)
next
  case None
  obtain rg msg sg where g: "generate_module env s = (rg, msg, sg)"
    by (cases "generate_module env s") auto
  have d: "sdb sg = sdb s" by (rule generate_module_sdb [OF g])
  from generate_module_result [OF g] show ?thesis
  proof
    assume r0: "rg = Inr 0"
    with generate_module_success g obtain mg where mg: "gen_module sg = Some mg" by blast
    have "finish_module env msg (sg\<lparr>sdb := (sdb sg)\<lparr>Write := w\<rparr>\<rparr>) =
           (fst (finish_module env msg sg),
            (snd (finish_module env msg sg))\<lparr>sdb := (sdb sg)\<lparr>Write := w\<rparr>\<rparr>)"
      by (rule finish_module_Write [OF mg])
    then show ?thesis using None g r0 d by (simp add: Prepare_def generate_module_Write)
  next
    assume r1: "rg = Inr 1"
    then show ?thesis using None g by (simp add: Prepare_def generate_module_Write)
  qed
qed

lemma generate_module_name:
  assumes "generate_module env s = (r, msg, s')"
  shows "exec_module_name s' = exec_module_name s"
  using assms by (auto simp: generate_unfold split: if_splits option.splits)

lemma generate_preopt_fails:
  assumes "FLAGS_dump_module_bitcode env"
    and "\<forall>msg. raw_fd_ostream env (preopt_file env s) msg \<noteq> []"
    and "generate_module env s = (r, msg, s')"
  shows "r = Inr 1
       \<and> (\<forall>e \<in> set (calls s s'). is_generation_stage e \<or> e = E_raw_fd_ostream (preopt_file env s))"
  using assms
  by (auto simp: generate_unfold preopt_file_def trampolines_def split: if_splits option.splits)

lemma generate_module_bitcode:
  assumes "generate_module env s = (r, msg, s')"
    and "E_WriteBitcodeToFile f \<in> set (calls s s')"
  shows "f = preopt_file env s \<and> (\<exists>m. raw_fd_ostream env (preopt_file env s) m = [])"
  using assms
  by (auto simp: generate_unfold preopt_file_def trampolines_def split: if_splits option.splits)

lemma finish_postopt_fails:
  assumes "gen_module s = Some m" and "FLAGS_optimize_ir_modules env"
    and "FLAGS_dump_module_bitcode env"
    and "\<forall>msg. raw_fd_ostream env (postopt_file env s) msg \<noteq> []"
    and "finish_module env msg s = (r, s')"
  shows "r = Inr 1
       \<and> (\<forall>e \<in> set (calls s s'). phase e = 0 \<and> e \<noteq> E_WriteBitcodeToFile (postopt_file env s))"
  using assms
  by (auto simp: finish_module_Some calls_def optimize_calls_def postopt_file_def
           split: if_splits)

lemma Prepare_preopt_fails:
  assumes n: "gen_module s = None" and d: "FLAGS_dump_module_bitcode env"
    and f: "\<forall>msg. raw_fd_ostream env (preopt_file env s) msg \<noteq> []"
    and P: "Prepare env s = (r, s')"
  shows "r = Inr 1
       \<and> (\<forall>e \<in> set (calls s s'). is_generation_stage e \<or> e = E_raw_fd_ostream (preopt_file env s))"
  using P
proof (cases rule: Prepare_cases)
  case (skip m)
  then show ?thesis using n by simp
next
  case (abort msg)
  show ?thesis by (rule generate_preopt_fails [OF d f abort(2)])
next
  case (full msg sg mg)
  then show ?thesis using generate_preopt_fails [OF d f full(2)] by simp
qed

lemma Prepare_postopt_fails:
  assumes o: "FLAGS_optimize_ir_modules env" and d: "FLAGS_dump_module_bitcode env"
    and f: "\<forall>msg. raw_fd_ostream env (postopt_file env s) msg \<noteq> []"
    and P: "Prepare env s = (r, s')"
  shows "r = Inr 1
       \<and> (\<forall>e \<in> set (calls s s'). phase e = 0 \<and> e \<noteq> E_WriteBitcodeToFile (postopt_file env s))"
  using P
proof (cases rule: Prepare_cases)
  case (skip m)
  show ?thesis by (rule finish_postopt_fails [OF skip(1) o d f skip(2)])
next
  case (abort msg)
  have z: "\<forall>e \<in> set (calls s s'). phase e = 0"
    using generate_module_phase [OF abort(2)] by blast
  have "E_WriteBitcodeToFile (postopt_file env s) \<notin> set (calls s s')"
    using generate_module_bitcode [OF abort(2)] f by metis
  then show ?thesis using z abort(3) by auto
next
  case (full msg sg mg)
  have nm: "postopt_file env sg = postopt_file env s"
    using generate_module_name [OF full(2)] by (simp add: postopt_file_def)
  have c: "calls s s' = calls s sg @ calls sg s'"
    using calls_append [OF generate_module_trace [OF full(2)]
            finish_module_trace [OF full(3) full(4)]] by simp
  have z: "\<forall>e \<in> set (calls s sg). phase e = 0"
    using generate_module_phase [OF full(2)] by blast
  have w: "E_WriteBitcodeToFile (postopt_file env s) \<notin> set (calls s sg)"
    using generate_module_bitcode [OF full(2)] f by metis
  have fin: "r = Inr 1
       \<and> (\<forall>e \<in> set (calls sg s'). phase e = 0 \<and> e \<noteq> E_WriteBitcodeToFile (postopt_file env s))"
    using finish_postopt_fails [OF full(3) o d _ full(4)] f nm by simp
  show ?thesis using z w fin by (auto simp: c)
qed

text \<open>
  Claim C3, as the code has it. The result of \<^verbatim>\<open>sdb_->Write\<close> is never looked at: whatever it
  is, \<^verbatim>\<open>Prepare\<close> does the same. A bitcode dump whose file cannot be opened is fatal. When
  the pre-optimization file does not open, a \<^verbatim>\<open>Prepare\<close> on a module without a generated
  module returns 1 and makes no call beyond those of the generation stages and the failed
  open. When the post-optimization file does not open (the other may), \<^verbatim>\<open>Prepare\<close> returns 1,
  writes no bitcode to that file and makes no call of \<^verbatim>\<open>Init\<close> or of the JIT loop.
\<close>

theorem Prepare_dump_failures:
  "Prepare env (s\<lparr>sdb := (sdb s)\<lparr>Write := w\<rparr>\<rparr>) =
     (fst (Prepare env s), (snd (Prepare env s))\<lparr>sdb := (sdb s)\<lparr>Write := w\<rparr>\<rparr>)
   \<and> (gen_module s = None \<and> FLAGS_dump_module_bitcode env
        \<and> (\<forall>msg. raw_fd_ostream env (preopt_file env s) msg \<noteq> [])
      \<longrightarrow> fst (Prepare env s) = Inr 1
          \<and> (\<forall>e \<in> set (calls s (snd (Prepare env s))).
                is_generation_stage e \<or> e = E_raw_fd_ostream (preopt_file env s)))
   \<and> (FLAGS_optimize_ir_modules env \<and> FLAGS_dump_module_bitcode env
        \<and> (\<forall>msg. raw_fd_ostream env (postopt_file env s) msg \<noteq> [])
      \<longrightarrow> fst (Prepare env s) = Inr 1
          \<and> (\<forall>e \<in> set (calls s (snd (Prepare env s))).
                phase e = 0 \<and> e \<noteq> E_WriteBitcodeToFile (postopt_file env s)))"
proof -
  have P: "Prepare env s = (fst (Prepare env s), snd (Prepare env s))" by simp
  have a: "Prepare env (s\<lparr>sdb := (sdb s)\<lparr>Write := w\<rparr>\<rparr>) =
     (fst (Prepare env s), (snd (Prepare env s))\<lparr>sdb := (sdb s)\<lparr>Write := w\<rparr>\<rparr>)"
    by (rule Prepare_Write)
  have b: "fst (Prepare env s) = Inr 1
          \<and> (\<forall>e \<in> set (calls s (snd (Prepare env s))).
                is_generation_stage e \<or> e = E_raw_fd_ostream (preopt_file env s))"
    if "gen_module s = None" "FLAGS_dump_module_bitcode env"
       "\<forall>msg. raw_fd_ostream env (preopt_file env s) msg \<noteq> []"
    by (rule Prepare_preopt_fails [OF that P])
  have c: "fst (Prepare env s) = Inr 1
          \<and> (\<forall>e \<in> set (calls s (snd (Prepare env s))).
                phase e = 0 \<and> e \<noteq> E_WriteBitcodeToFile (postopt_file env s))"
    if "FLAGS_optimize_ir_modules env" "FLAGS_dump_module_bitcode env"
       "\<forall>msg. raw_fd_ostream env (postopt_file env s) msg \<noteq> []"
    by (rule Prepare_postopt_fails [OF that P])
  show ?thesis using a b c by (intro conjI impI) simp_all
qed

lemma example_map:
  "fst (Prepare env_map example_module) = Inr 0
   \<and> E_Write ''build/game.map'' \<in> set (trace (snd (Prepare env_map example_module)))"
  by (simp add: evaluate example_defs env_map_def del: bind_variables.simps)

theorem Prepare_dump_failures_witness:
  "fst (Prepare env_map (example_module\<lparr>sdb := example_sdb\<lparr>Write := 1\<rparr>\<rparr>)) = Inr 0
   \<and> E_Write ''build/game.map''
       \<in> set (trace (snd (Prepare env_map (example_module\<lparr>sdb := example_sdb\<lparr>Write := 1\<rparr>\<rparr>))))
   \<and> fst (Prepare env_dump_fails example_module) = Inr 1
   \<and> E_MaterializeAllPermanently
       \<notin> set (calls example_module (snd (Prepare env_dump_fails example_module)))
   \<and> fst (Prepare env_postopt_fails example_module) = Inr 1
   \<and> filter (\<lambda>e. phase e \<noteq> 0)
        (calls example_module (snd (Prepare env_postopt_fails example_module))) = []"
proof -
  have sd: "sdb example_module = example_sdb" by (simp add: example_module_def)
  have w: "Prepare env_map (example_module\<lparr>sdb := example_sdb\<lparr>Write := 1\<rparr>\<rparr>) =
     (fst (Prepare env_map example_module),
      (snd (Prepare env_map example_module))\<lparr>sdb := example_sdb\<lparr>Write := 1\<rparr>\<rparr>)"
    using Prepare_dump_failures [where env = env_map and s = example_module and w = 1]
    by (simp add: sd)
  have a: "fst (Prepare env_map (example_module\<lparr>sdb := example_sdb\<lparr>Write := 1\<rparr>\<rparr>)) = Inr 0
     \<and> E_Write ''build/game.map''
       \<in> set (trace (snd (Prepare env_map (example_module\<lparr>sdb := example_sdb\<lparr>Write := 1\<rparr>\<rparr>))))"
    using example_map by (simp add: w)
  have pre: "preopt_file env_dump_fails example_module = ''build/game-preopt.bc''"
    by (simp add: preopt_file_def xesnprintfa_def env_dump_fails_def env_dump_def
          example_env_def example_module_def)
  have b: "fst (Prepare env_dump_fails example_module) = Inr 1
     \<and> (\<forall>e \<in> set (calls example_module (snd (Prepare env_dump_fails example_module))).
           is_generation_stage e \<or> e = E_raw_fd_ostream ''build/game-preopt.bc'')"
    using Prepare_dump_failures [where env = env_dump_fails and s = example_module and w = 0]
    by (simp add: pre) (simp add: env_dump_fails_def env_dump_def example_env_def
          example_module_def)
  then have b2: "E_MaterializeAllPermanently
       \<notin> set (calls example_module (snd (Prepare env_dump_fails example_module)))"
    by auto
  have post: "postopt_file env_postopt_fails example_module = ''build/game.bc''"
    by (simp add: postopt_file_def xesnprintfa_def env_postopt_fails_def
          example_env_def example_module_def)
  have c: "fst (Prepare env_postopt_fails example_module) = Inr 1
     \<and> (\<forall>e \<in> set (calls example_module (snd (Prepare env_postopt_fails example_module))).
           phase e = 0 \<and> e \<noteq> E_WriteBitcodeToFile ''build/game.bc'')"
    using Prepare_dump_failures [where env = env_postopt_fails and s = example_module and w = 0]
    by (simp add: post) (simp add: env_postopt_fails_def example_env_def)
  then have c2: "filter (\<lambda>e. phase e \<noteq> 0)
        (calls example_module (snd (Prepare env_postopt_fails example_module))) = []"
    by (simp add: filter_empty_conv)
  show ?thesis using a b b2 c c2 by simp
qed

text \<open>
  On the concrete module, with the dump switched on, \<^verbatim>\<open>Prepare\<close> returns 0 when the dump
  file opens and 1 when it does not, and its last call is then the attempt to open the
  file, for the pre-optimization file as for the post-optimization one.
\<close>

theorem Prepare_dump_failure_counterexample:
  "fst (Prepare env_dump example_module) = Inr 0
   \<and> fst (Prepare env_dump_fails example_module) = Inr 1
   \<and> trace (snd (Prepare env_dump_fails example_module)) =
       [E_getFile ''src/cpu/xethunk/xethunk.bc'', E_ParseBitcodeFile, E_Analyze,
        E_new_Module ''game'', E_addGlobalMapping ''XeTrap'',
        E_addGlobalMapping ''XeIndirectBranch'', E_addGlobalMapping ''XeInvalidInstruction'',
        E_addGlobalMapping ''XeTraceKernelCall'', E_addGlobalMapping ''XeTraceUserCall'',
        E_addGlobalMapping ''XeTraceInstruction'', E_LinkModules, E_Generate,
        E_raw_fd_ostream ''build/game-preopt.bc'']
   \<and> fst (Prepare env_postopt_fails example_module) = Inr 1
   \<and> trace (snd (Prepare env_postopt_fails example_module)) =
       [E_getFile ''src/cpu/xethunk/xethunk.bc'', E_ParseBitcodeFile, E_Analyze,
        E_new_Module ''game'', E_addGlobalMapping ''XeTrap'',
        E_addGlobalMapping ''XeIndirectBranch'', E_addGlobalMapping ''XeInvalidInstruction'',
        E_addGlobalMapping ''XeTraceKernelCall'', E_addGlobalMapping ''XeTraceUserCall'',
        E_addGlobalMapping ''XeTraceInstruction'', E_LinkModules, E_Generate,
        E_raw_fd_ostream ''build/game-preopt.bc'', E_WriteBitcodeToFile ''build/game-preopt.bc'',
        E_MaterializeAllPermanently, E_setTargetTriple ''host'',
        E_run [DataLayout, VerifierPass, populateModulePassManager pmb,
               populateLTOPassManager pmb False True, VerifierPass],
        E_raw_fd_ostream ''build/game.bc'']"
  by (simp add: evaluate example_defs env_postopt_fails_def del: bind_variables.simps)

end
